theory Spec2Isabelle
  imports Complex_Main "HOL-Library.Word"
begin

unbundle bit_operations_syntax

section \<open>Python values, exceptions and responses\<close>

text \<open>
  The values that flow through the service: decoded JSON bodies, the dictionaries the
  backend client builds, and the strings built by f-strings. \<open>PFmt vs\<close> is the Python
  \<open>str\<close> obtained by concatenating \<open>str(v)\<close> for each \<open>v\<close> of \<open>vs\<close>: an f-string is kept
  as the sequence of its literal segments (\<open>PStr\<close>) and interpolated values, so that the
  rendering of nested containers (\<open>repr\<close>) never has to be computed. A \<open>PDict\<close> lists the
  items of a dictionary; the first binding of a key is the dictionary's entry. JSON
  numbers are \<open>PInt\<close> or \<open>PFloat\<close> (a float taken as the real number it denotes).
\<close>

datatype pyval =
    PNone
  | PBool bool
  | PInt int
  | PFloat real
  | PStr string
  | PList "pyval list"
  | PDict "(string \<times> pyval) list"
  | PFmt "pyval list"

text \<open>\<open>str(v) != ""\<close>: only the empty string renders to nothing.\<close>

fun str_nonempty :: "pyval \<Rightarrow> bool" where
  "str_nonempty (PStr s) = (s \<noteq> [])"
| "str_nonempty (PFmt vs) = list_ex str_nonempty vs"
| "str_nonempty v = True"

text \<open>Python truthiness, as used by \<open>if x\<close>, \<open>not x\<close> and \<open>x or y\<close>.\<close>

fun truthy :: "pyval \<Rightarrow> bool" where
  "truthy PNone = False"
| "truthy (PBool b) = b"
| "truthy (PInt n) = (n \<noteq> 0)"
| "truthy (PFloat x) = (x \<noteq> 0)"
| "truthy (PStr s) = (s \<noteq> [])"
| "truthy (PList vs) = (vs \<noteq> [])"
| "truthy (PDict d) = (d \<noteq> [])"
| "truthy (PFmt vs) = list_ex str_nonempty vs"

definition py_or :: "pyval \<Rightarrow> pyval \<Rightarrow> pyval" where
  "py_or a b = (if truthy a then a else b)"

text \<open>
  \<open>v == n\<close> for an integer literal and \<open>v == s\<close> for a string literal. A boolean equals
  the integer it stands for. Every string this code compares to a literal is a \<open>PStr\<close>.
\<close>

fun py_eq_int :: "pyval \<Rightarrow> int \<Rightarrow> bool" where
  "py_eq_int (PInt m) n = (m = n)"
| "py_eq_int (PBool b) n = ((if b then 1 else 0) = n)"
| "py_eq_int (PFloat x) n = (x = of_int n)"
| "py_eq_int v n = False"

fun py_eq_str :: "pyval \<Rightarrow> string \<Rightarrow> bool" where
  "py_eq_str (PStr t) s = (t = s)"
| "py_eq_str v s = False"

fun type_name :: "pyval \<Rightarrow> string" where
  "type_name PNone = ''NoneType''"
| "type_name (PBool b) = ''bool''"
| "type_name (PInt n) = ''int''"
| "type_name (PFloat x) = ''float''"
| "type_name (PStr s) = ''str''"
| "type_name (PList vs) = ''list''"
| "type_name (PDict d) = ''dict''"
| "type_name (PFmt vs) = ''str''"

text \<open>
  Exception classes the handlers of this code tell apart. \<open>BinasciiError\<close> is a subclass
  of \<open>ValueError\<close>; aiohttp's \<open>InvalidURL\<close> is a subclass of both \<open>ClientError\<close> and
  \<open>ValueError\<close>; \<open>OtherError name\<close> is any other direct subclass of \<open>Exception\<close>.
\<close>

datatype ecls =
    Exception
  | ValueError
  | BinasciiError
  | ClientError
  | InvalidURL
  | TimeoutError
  | NotImplementedError
  | AttributeError
  | OSError
  | OpenAIError
  | OtherError string

datatype exc = Exc (exc_class: ecls) (exc_str: pyval)

fun class_name :: "ecls \<Rightarrow> string" where
  "class_name Exception = ''Exception''"
| "class_name ValueError = ''ValueError''"
| "class_name BinasciiError = ''Error''"
| "class_name ClientError = ''ClientError''"
| "class_name InvalidURL = ''InvalidURL''"
| "class_name TimeoutError = ''TimeoutError''"
| "class_name NotImplementedError = ''NotImplementedError''"
| "class_name AttributeError = ''AttributeError''"
| "class_name OSError = ''OSError''"
| "class_name OpenAIError = ''OpenAIError''"
| "class_name (OtherError n) = n"

definition is_ClientError :: "exc \<Rightarrow> bool" where
  "is_ClientError e = (exc_class e = ClientError \<or> exc_class e = InvalidURL)"

definition is_TimeoutError :: "exc \<Rightarrow> bool" where
  "is_TimeoutError e = (exc_class e = TimeoutError)"

definition is_ValueError :: "exc \<Rightarrow> bool" where
  "is_ValueError e =
     (exc_class e = ValueError \<or> exc_class e = BinasciiError \<or> exc_class e = InvalidURL)"

definition is_OpenAIError :: "exc \<Rightarrow> bool" where
  "is_OpenAIError e = (exc_class e = OpenAIError)"

text \<open>\<open>fastapi.HTTPException(status_code, detail)\<close>.\<close>

datatype http_exception = HTTPException (status_code: int) (detail: pyval)

text \<open>Python's \<open>str(n)\<close> for an integer and \<open>s.lower()\<close> on ASCII letters.\<close>

fun digits :: "nat \<Rightarrow> string" where
  "digits n = (if n < 10 then [''0123456789'' ! n]
               else digits (n div 10) @ [''0123456789'' ! (n mod 10)])"

definition str_int :: "int \<Rightarrow> string" where
  "str_int i = (if i < 0 then CHR ''-'' # digits (nat (- i)) else digits (nat i))"

definition lower_char :: "char \<Rightarrow> char" where
  "lower_char c =
     (let n = (of_char c :: nat)
      in if 65 \<le> n \<and> n \<le> 90
         then ''abcdefghijklmnopqrstuvwxyz'' ! (n - 65) else c)"

definition lower :: "string \<Rightarrow> string" where
  "lower s = map lower_char s"

definition startswith :: "string \<Rightarrow> string \<Rightarrow> bool" where
  "startswith s p = (take (length p) s = p)"

type_synonym byte = "8 word"

section \<open>utils/throttle.py: ThrottleMiddleware\<close>

text \<open>
  The middleware object. \<open>requests\<close> is a \<open>defaultdict(list)\<close>: reading a key that is
  missing yields the empty list. Times are the floats of \<open>time.time()\<close>, taken as real
  numbers (the subtraction \<open>current_time - 60\<close> is exact).
\<close>

record throttle =
  requests_per_minute :: int
  requests :: "string \<rightharpoonup> real list"
  cleanup_interval :: real
  last_cleanup :: real

definition throttle_init :: "int \<Rightarrow> real \<Rightarrow> throttle" where
  "throttle_init rpm now =
     \<lparr>requests_per_minute = rpm, requests = Map.empty, cleanup_interval = 60,
      last_cleanup = now\<rparr>"

definition requests_of :: "throttle \<Rightarrow> string \<Rightarrow> real list" where
  "requests_of t user_id = (case requests t user_id of None \<Rightarrow> [] | Some l \<Rightarrow> l)"

text \<open>What the middleware reads of a request: the peer address and the X-User-ID header.\<close>

record request =
  client_host :: "string option"
  x_user_id :: "string option"

definition client_identity :: "request \<Rightarrow> string" where
  "client_identity r =
     (let client_id = (case client_host r of Some h \<Rightarrow> h | None \<Rightarrow> ''unknown'')
      in case x_user_id r of
           Some u \<Rightarrow> (if u \<noteq> [] then u else client_id)
         | None \<Rightarrow> client_id)"

definition is_rate_limited :: "throttle \<Rightarrow> string \<Rightarrow> real \<Rightarrow> bool \<times> throttle" where
  "is_rate_limited t user_id current_time =
     (let minute_ago = current_time - 60;
          user_requests = filter (\<lambda>req_time. req_time > minute_ago) (requests_of t user_id)
      in (int (length user_requests) \<ge> requests_per_minute t,
          t\<lparr>requests := (requests t)(user_id \<mapsto> user_requests)\<rparr>))"

definition cleanup_old_entries :: "throttle \<Rightarrow> real \<Rightarrow> throttle" where
  "cleanup_old_entries t current_time =
     (let minute_ago = current_time - 60
      in t\<lparr>requests := (\<lambda>user_id.
            case requests t user_id of
              None \<Rightarrow> None
            | Some l \<Rightarrow>
                (let l' = filter (\<lambda>req_time. req_time > minute_ago) l
                 in if l' = [] then None else Some l'))\<rparr>)"

definition rate_limit_detail :: "int \<Rightarrow> pyval" where
  "rate_limit_detail rpm =
     PFmt [PStr ''Rate limit exceeded. Maximum '', PInt rpm, PStr '' requests per minute.'']"

text \<open>
  \<open>dispatch\<close>: \<open>Inl\<close> is the raised \<open>HTTPException\<close>; \<open>Inr ()\<close> means the request was
  recorded and handed to \<open>call_next\<close>.
\<close>

definition dispatch :: "throttle \<Rightarrow> request \<Rightarrow> real \<Rightarrow> (http_exception + unit) \<times> throttle" where
  "dispatch t r current_time =
     (let t1 = (if current_time - last_cleanup t > cleanup_interval t
                then (cleanup_old_entries t current_time)\<lparr>last_cleanup := current_time\<rparr>
                else t);
          user_id = client_identity r;
          (limited, t2) = is_rate_limited t1 user_id current_time
      in if limited
         then (Inl (HTTPException 429 (rate_limit_detail (requests_per_minute t2))), t2)
         else (Inr (),
               t2\<lparr>requests := (requests t2)(user_id \<mapsto> requests_of t2 user_id @ [current_time])\<rparr>))"

text \<open>
  The window as the specification words it: the recorded timestamps within
  \<open>[now - 60, now)\<close>.
\<close>

definition spec_window_count :: "real list \<Rightarrow> real \<Rightarrow> nat" where
  "spec_window_count ts now = length (filter (\<lambda>x. now - 60 \<le> x \<and> x < now) ts)"

text \<open>The window as the code computes it: the timestamps less than 60 seconds old.\<close>

definition window_count :: "real list \<Rightarrow> real \<Rightarrow> nat" where
  "window_count ts now = length (filter (\<lambda>x. now - 60 < x) ts)"

text \<open>
  A sequence of requests served one after another, each with the clock reading taken at
  its arrival: the limiter after the sequence, and the timestamps that were admitted
  (recorded) for one identity along it.
\<close>

fun serve :: "throttle \<Rightarrow> (request \<times> real) list \<Rightarrow> throttle" where
  "serve t [] = t"
| "serve t ((r, now) # rest) = serve (snd (dispatch t r now)) rest"

fun recorded :: "throttle \<Rightarrow> (request \<times> real) list \<Rightarrow> string \<Rightarrow> real list" where
  "recorded t [] u = []"
| "recorded t ((r, now) # rest) u =
     (if client_identity r = u \<and> fst (dispatch t r now) = Inr () then [now] else [])
     @ recorded (snd (dispatch t r now)) rest u"

text \<open>
  \<open>main.py\<close> installs the limiter with \<open>app.add_middleware\<close>. Starlette stacks
  middleware added that way outside its \<open>ExceptionMiddleware\<close>, the layer that turns an
  \<open>HTTPException\<close> into a response with its status code and detail, and inside its
  \<open>ServerErrorMiddleware\<close>, which answers every exception that reaches it with the plain
  text \<open>Internal Server Error\<close> and status 500. So an exception raised by \<open>dispatch\<close>
  itself meets only the latter. \<open>Forwarded\<close>: the request went on to \<open>call_next\<close>.
\<close>

datatype answer = Answer int string | Forwarded

definition server_error_middleware :: "http_exception + unit \<Rightarrow> answer" where
  "server_error_middleware outcome =
     (case outcome of
        Inl exc \<Rightarrow> Answer 500 ''Internal Server Error''
      | Inr u \<Rightarrow> Forwarded)"

definition app :: "throttle \<Rightarrow> request \<Rightarrow> real \<Rightarrow> answer \<times> throttle" where
  "app t r current_time =
     (case dispatch t r current_time of
        (outcome, t') \<Rightarrow> (server_error_middleware outcome, t'))"

section \<open>utils/http_client.py: HTTPClient\<close>

text \<open>
  What one attempt meets on the network. \<open>Response status body\<close>: a response arrived and
  its body was read; the body either decoded as JSON (\<open>response.json()\<close>) or, when that
  raised, was read as text (\<open>response.text()\<close>). \<open>Raises e\<close>: the session, the request or
  the reading of the body raised \<open>e\<close>.
\<close>

datatype body = JsonBody pyval | TextBody string

datatype attempt = Response int body | Raises exc

text \<open>
  The effects a request leaves outside the process, in the order they happen: one
  backend HTTP attempt (method, URL, JSON payload), one \<open>asyncio.sleep\<close>, one
  \<open>session.get\<close> of an image URL, one call of a provider's \<open>generate_image\<close>.
\<close>

datatype event =
    BackendAttempt string string pyval
  | Sleep int
  | HttpGet string
  | GenerateCall string

record http_client =
  base_url :: string
  max_retries :: nat
  retry_delay :: int

definition getenv :: "(string \<rightharpoonup> string) \<Rightarrow> string \<Rightarrow> string \<Rightarrow> string" where
  "getenv environ k dflt = (case environ k of Some v \<Rightarrow> v | None \<Rightarrow> dflt)"

definition http_client_init :: "(string \<rightharpoonup> string) \<Rightarrow> http_client" where
  "http_client_init environ =
     \<lparr>base_url = getenv environ ''BACKEND_URL'' ''http://localhost:8000'',
      max_retries = 3, retry_delay = 1\<rparr>"

text \<open>\<open>v.get\<close> on a value that is not a dictionary raises \<open>AttributeError\<close>.\<close>

definition attribute_error :: "pyval \<Rightarrow> string \<Rightarrow> exc" where
  "attribute_error v a =
     Exc AttributeError
       (PStr ([CHR 0x27] @ type_name v @ [CHR 0x27] @ '' object has no attribute ''
              @ [CHR 0x27] @ a @ [CHR 0x27]))"

definition dict_get :: "pyval \<Rightarrow> string \<Rightarrow> pyval \<Rightarrow> exc + pyval" where
  "dict_get v k dflt =
     (case v of
        PDict d \<Rightarrow> Inr (case map_of d k of Some x \<Rightarrow> x | None \<Rightarrow> dflt)
      | _ \<Rightarrow> Inl (attribute_error v ''get''))"

text \<open>\<open>response_data.get("detail", response_data.get("error", dflt))\<close>.\<close>

definition detail_or_error :: "pyval \<Rightarrow> string \<Rightarrow> exc + pyval" where
  "detail_or_error response_data dflt =
     (case dict_get response_data ''error'' (PStr dflt) of
        Inl e \<Rightarrow> Inl e
      | Inr inner \<Rightarrow> dict_get response_data ''detail'' inner)"

definition response_data_of :: "body \<Rightarrow> pyval" where
  "response_data_of b =
     (case b of
        JsonBody v \<Rightarrow> v
      | TextBody response_text \<Rightarrow>
          (if response_text \<noteq> [] then PDict [(''detail'', PStr response_text)] else PDict []))"

text \<open>The chain of status tests of \<open>_request\<close>; \<open>Inl\<close> is an exception raised inside it.\<close>

definition classify :: "string \<Rightarrow> int \<Rightarrow> pyval \<Rightarrow> exc + pyval" where
  "classify endpoint status response_data =
     (if status = 200 then Inr response_data
      else if status = 401 then
        (case detail_or_error response_data ''Authentication failed'' of
           Inl e \<Rightarrow> Inl e
         | Inr error_msg \<Rightarrow>
             Inr (PDict [(''error'', PStr ''Unauthorized''),
                         (''detail'', error_msg),
                         (''status'', PInt 401),
                         (''message'', PFmt [PStr ''Authentication failed: '', error_msg])]))
      else if status = 403 then
        (case detail_or_error response_data ''Access forbidden'' of
           Inl e \<Rightarrow> Inl e
         | Inr error_msg \<Rightarrow>
             Inr (PDict [(''error'', PStr ''Forbidden''),
                         (''detail'', error_msg),
                         (''status'', PInt 403),
                         (''message'',
                            PFmt [PStr ''Insufficient credits or access denied: '', error_msg])]))
      else if status = 404 then
        Inr (PDict [(''error'', PStr ''Not Found''),
                    (''detail'', PStr (''Endpoint not found: '' @ endpoint)),
                    (''status'', PInt 404),
                    (''message'', PStr (''Backend endpoint '' @ endpoint @ '' not found''))])
      else if status \<ge> 500 then
        (case detail_or_error response_data ''Server error'' of
           Inl e \<Rightarrow> Inl e
         | Inr error_msg \<Rightarrow>
             Inr (PDict [(''error'', PStr ''Backend Server Error''),
                         (''detail'', error_msg),
                         (''status'', PInt status),
                         (''message'', PFmt [PStr ''Backend server error: '', error_msg])]))
      else
        (case detail_or_error response_data ''Unknown error'' of
           Inl e \<Rightarrow> Inl e
         | Inr error_msg \<Rightarrow>
             Inr (PDict [(''error'', PStr (''Backend error ('' @ str_int status @ '')'')),
                         (''detail'', error_msg),
                         (''status'', PInt status),
                         (''message'', PFmt [PStr ''Backend returned error: '', error_msg])])))"

text \<open>The body of the \<open>try\<close> of one attempt: a returned dictionary or a raised exception.\<close>

definition attempt_result :: "string \<Rightarrow> attempt \<Rightarrow> exc + pyval" where
  "attempt_result endpoint a =
     (case a of
        Response status b \<Rightarrow> classify endpoint status (response_data_of b)
      | Raises e \<Rightarrow> Inl e)"

text \<open>The three \<open>except\<close> clauses, in their order: what \<open>last_error\<close> becomes and what is
  raised on the last attempt.\<close>

definition last_error_of :: "exc \<Rightarrow> pyval" where
  "last_error_of e =
     (if is_ClientError e then PFmt [PStr ''Network error: '', exc_str e]
      else if is_TimeoutError e then PStr ''Request timeout''
      else exc_str e)"

definition final_exception :: "http_client \<Rightarrow> string \<Rightarrow> exc \<Rightarrow> exc" where
  "final_exception c url e =
     (if is_ClientError e then
        Exc Exception (PFmt [PStr ''Network error after '', PInt (int (max_retries c)),
                             PStr '' attempts connecting to '', PStr url, PStr '': '', exc_str e])
      else if is_TimeoutError e then
        Exc Exception (PFmt [PStr ''Request timeout after '', PInt (int (max_retries c)),
                             PStr '' attempts for '', PStr url])
      else
        Exc Exception (PFmt [PStr ''Request failed after '', PInt (int (max_retries c)),
                             PStr '' attempts for '', PStr url, PStr '': '', exc_str e]))"

text \<open>
  The loop \<open>for attempt in range(self.max_retries)\<close>. \<open>net attempt\<close> is what the attempt
  with that index meets; the event list is extended by every attempt and every sleep.
\<close>

function request_loop ::
  "http_client \<Rightarrow> (nat \<Rightarrow> attempt) \<Rightarrow> string \<Rightarrow> string \<Rightarrow> string \<Rightarrow> pyval \<Rightarrow>
   nat \<Rightarrow> pyval \<Rightarrow> event list \<Rightarrow> (exc + pyval) \<times> event list" where
  "request_loop c net method url endpoint data attempt last_error tr =
     (if attempt < max_retries c then
        (let tr1 = tr @ [BackendAttempt method url data]
         in case attempt_result endpoint (net attempt) of
              Inr result \<Rightarrow> (Inr result, tr1)
            | Inl e \<Rightarrow>
                (if attempt = max_retries c - 1 then (Inl (final_exception c url e), tr1)
                 else request_loop c net method url endpoint data (attempt + 1)
                        (last_error_of e) (tr1 @ [Sleep (retry_delay c * 2 ^ attempt)])))
      else (Inl (Exc Exception (PFmt [PStr ''Request failed after all retries: '', last_error])),
            tr))"
  by pat_completeness auto
termination
  by (relation "measure (\<lambda>(c, net, method, url, endpoint, data, attempt, last_error, tr).
                           max_retries c - attempt)") auto

definition request ::
  "http_client \<Rightarrow> (string \<Rightarrow> nat \<Rightarrow> attempt) \<Rightarrow> string \<Rightarrow> string \<Rightarrow> pyval \<Rightarrow>
   event list \<Rightarrow> (exc + pyval) \<times> event list" where
  "request c net method endpoint data tr =
     (let url = base_url c @ endpoint
      in request_loop c (net url) method url endpoint data 0 PNone tr)"

text \<open>\<open>urllib.parse.urlencode({"user_id": user_id})\<close>: \<open>quote_plus\<close> of the value.\<close>

definition hex_byte :: "nat \<Rightarrow> string" where
  "hex_byte n = [''0123456789ABCDEF'' ! (n div 16), ''0123456789ABCDEF'' ! (n mod 16)]"

definition quote_plus_char :: "char \<Rightarrow> string" where
  "quote_plus_char ch =
     (let n = (of_char ch :: nat)
      in if (65 \<le> n \<and> n \<le> 90) \<or> (97 \<le> n \<and> n \<le> 122) \<or> (48 \<le> n \<and> n \<le> 57)
            \<or> ch \<in> set ''_.-~'' then [ch]
         else if ch = CHR '' '' then ''+''
         else CHR ''%'' # hex_byte n)"

definition quote_plus :: "string \<Rightarrow> string" where
  "quote_plus s = concat (map quote_plus_char s)"

definition verify_auth ::
  "http_client \<Rightarrow> (string \<Rightarrow> nat \<Rightarrow> attempt) \<Rightarrow> string \<Rightarrow> string \<Rightarrow> event list \<Rightarrow>
   (exc + pyval) \<times> event list" where
  "verify_auth c net uid key tr =
     request c net ''POST'' ''/api/v1/auth/verify/''
       (PDict [(''user_id'', PStr uid), (''api_key'', PStr key)]) tr"

definition check_credits ::
  "http_client \<Rightarrow> (string \<Rightarrow> nat \<Rightarrow> attempt) \<Rightarrow> string \<Rightarrow> event list \<Rightarrow>
   (exc + pyval) \<times> event list" where
  "check_credits c net uid tr =
     request c net ''GET'' (''/api/v1/credits/check/?user_id='' @ quote_plus uid) PNone tr"

definition send_webhook ::
  "http_client \<Rightarrow> (string \<Rightarrow> nat \<Rightarrow> attempt) \<Rightarrow> string \<Rightarrow> int \<Rightarrow> string \<Rightarrow> string \<Rightarrow>
   real \<Rightarrow> event list \<Rightarrow> (exc + pyval) \<times> event list" where
  "send_webhook c net uid used_credits cid img latency tr =
     request c net ''POST'' ''/api/v1/inference/webhook/''
       (PDict [(''user_id'', PStr uid), (''used_credits'', PInt used_credits),
               (''catalog_id'', PStr cid), (''image_url'', PStr img),
               (''latency_ms'', PFloat latency)]) tr"

text \<open>The delays slept along a trace, in order.\<close>

fun sleeps :: "event list \<Rightarrow> int list" where
  "sleeps [] = []"
| "sleeps (Sleep d # tr) = d # sleeps tr"
| "sleeps (ev # tr) = sleeps tr"

text \<open>The number of backend attempts along a trace.\<close>

fun attempts_made :: "event list \<Rightarrow> nat" where
  "attempts_made [] = 0"
| "attempts_made (BackendAttempt m u d # tr) = Suc (attempts_made tr)"
| "attempts_made (ev # tr) = attempts_made tr"

section \<open>services/ai_provider.py: the providers and their resolution\<close>

datatype provider_class = OpenAIProvider | SoraProvider | GeminiProvider | StabilityProvider

text \<open>A constructed provider object; the two real providers hold their API key.\<close>

datatype ai_provider = OpenAI string | Gemini string | Sora | Stability

text \<open>
  \<open>__init__\<close> of each class. \<open>os.getenv(key)\<close> yields \<open>None\<close> for an unset variable, and
  \<open>not api_key\<close> also holds for the empty string. The placeholder classes define no
  constructor of their own.
\<close>

definition construct :: "(string \<rightharpoonup> string) \<Rightarrow> provider_class \<Rightarrow> exc + ai_provider" where
  "construct environ cls =
     (case cls of
        OpenAIProvider \<Rightarrow>
          (case environ ''OPENAI_API_KEY'' of
             None \<Rightarrow> Inl (Exc ValueError (PStr ''OPENAI_API_KEY not found in environment variables''))
           | Some api_key \<Rightarrow>
               (if api_key = []
                then Inl (Exc ValueError (PStr ''OPENAI_API_KEY not found in environment variables''))
                else Inr (OpenAI api_key)))
      | GeminiProvider \<Rightarrow>
          (case environ ''GOOGLE_API_KEY'' of
             None \<Rightarrow> Inl (Exc ValueError (PStr ''GOOGLE_API_KEY not found in environment variables''))
           | Some api_key \<Rightarrow>
               (if api_key = []
                then Inl (Exc ValueError (PStr ''GOOGLE_API_KEY not found in environment variables''))
                else Inr (Gemini api_key)))
      | SoraProvider \<Rightarrow> Inr Sora
      | StabilityProvider \<Rightarrow> Inr Stability)"

definition providers :: "(string \<times> provider_class) list" where
  "providers =
     [(''openai'', OpenAIProvider), (''sora'', SoraProvider),
      (''gemini'', GeminiProvider), (''stability'', StabilityProvider)]"

definition get_ai_provider :: "(string \<rightharpoonup> string) \<Rightarrow> exc + ai_provider" where
  "get_ai_provider environ =
     (let provider_name = lower (getenv environ ''AI_PROVIDER'' ''openai'')
      in case map_of providers provider_name of
           None \<Rightarrow> Inl (Exc ValueError (PFmt [PStr ''Unknown AI provider: '', PStr provider_name]))
         | Some provider_class \<Rightarrow> construct environ provider_class)"

text \<open>
  \<open>OpenAIProvider.generate_image\<close>, given what \<open>client.images.generate\<close> did: it raised,
  or it returned \<open>response.data\<close> (the URLs of its items). Every failure, the empty
  \<open>data\<close> included, leaves as a plain \<open>Exception\<close>.
\<close>

definition openai_generate_image :: "exc + string list \<Rightarrow> exc + string" where
  "openai_generate_image outcome =
     (case outcome of
        Inl e \<Rightarrow>
          (if is_OpenAIError e
           then Inl (Exc Exception (PFmt [PStr ''OpenAI API error: '', exc_str e]))
           else Inl (Exc Exception (PFmt [PStr ''Image generation error: '', exc_str e])))
      | Inr data \<Rightarrow>
          (case data of
             u # rest \<Rightarrow> Inr u
           | [] \<Rightarrow>
               Inl (Exc Exception (PFmt [PStr ''Image generation error: '',
                                         PStr ''No image URL returned from OpenAI'']))))"

text \<open>
  \<open>generate_image\<close> of a provider object. The two placeholders raise
  \<open>NotImplementedError\<close>. The Gemini provider talks to Google's services only; the result
  of its \<open>generate_image\<close> (a locator or a raised exception) is taken as given.
\<close>

definition generate_image ::
  "(exc + string list) \<Rightarrow> (exc + string) \<Rightarrow> ai_provider \<Rightarrow> exc + string" where
  "generate_image openai_outcome gemini_outcome p =
     (case p of
        OpenAI k \<Rightarrow> openai_generate_image openai_outcome
      | Gemini k \<Rightarrow> gemini_outcome
      | Sora \<Rightarrow> Inl (Exc NotImplementedError (PStr ''Sora provider not yet implemented''))
      | Stability \<Rightarrow>
          Inl (Exc NotImplementedError (PStr ''Stability AI provider not yet implemented'')))"

definition provider_label :: "ai_provider \<Rightarrow> string" where
  "provider_label p =
     (case p of OpenAI k \<Rightarrow> ''OpenAIProvider'' | Gemini k \<Rightarrow> ''GeminiProvider''
      | Sora \<Rightarrow> ''SoraProvider'' | Stability \<Rightarrow> ''StabilityProvider'')"

section \<open>The world around one request\<close>

text \<open>
  Everything outside the process that a request meets, fixed for the duration of the
  request: the environment variables (taken to be the same when the modules were
  imported and when the request is served), the readings of \<open>time.time()\<close> (the n-th call
  returns \<open>clock n\<close>), what the backend does at each attempt on each URL, what
  \<open>session.get\<close> of an image URL does (it raises, or yields a status and the body), the
  \<open>OSError\<close> (its message) that creating or opening a path for writing raises if any,
  the \<open>OSError\<close> that staging the temporary files raises if any, and what the two
  provider services do. \<open>logger_level\<close> is the level the module-level logger was given
  when \<open>services/logger.py\<close> was imported (\<open>setLevel\<close> at its line 17).
\<close>

record world =
  environ :: "string \<rightharpoonup> string"
  clock :: "nat \<Rightarrow> real"
  backend :: "string \<Rightarrow> nat \<Rightarrow> attempt"
  http_get :: "string \<Rightarrow> exc + (int \<times> byte list)"
  fs_fault :: "string \<Rightarrow> pyval option"
  tempfile_fault :: "pyval option"
  openai_images_generate :: "exc + string list"
  gemini_generate_image :: "exc + string"
  logger_level :: nat

section \<open>services/logger.py: InferenceLogger.log_request\<close>

datatype level = ERROR | INFO

definition levelno :: "level \<Rightarrow> nat" where
  "levelno l = (case l of ERROR \<Rightarrow> 40 | INFO \<Rightarrow> 20)"

text \<open>
  \<open>InferenceLogger.__init__\<close>: \<open>getattr(logging, os.getenv("LOG_LEVEL", "INFO"))\<close> for the
  level constants of the \<open>logging\<close> module. For any other value of \<open>LOG_LEVEL\<close> the
  lookup raises or yields some other object of the module; no level is given for it.
\<close>

definition level_names :: "(string \<times> nat) list" where
  "level_names =
     [(''CRITICAL'', 50), (''FATAL'', 50), (''ERROR'', 40), (''WARNING'', 30), (''WARN'', 30),
      (''INFO'', 20), (''DEBUG'', 10), (''NOTSET'', 0)]"

definition inference_logger_init :: "(string \<rightharpoonup> string) \<Rightarrow> nat option" where
  "inference_logger_init env = map_of level_names (getenv env ''LOG_LEVEL'' ''INFO'')"

text \<open>
  \<open>Logger.isEnabledFor\<close>: a record is emitted when its level is at least the effective
  level of the logger. A logger left at \<open>NOTSET\<close> takes the level of the root logger,
  which nothing in the repository configures: \<open>WARNING\<close>.
\<close>

definition get_effective_level :: "world \<Rightarrow> nat" where
  "get_effective_level w = (if logger_level w = 0 then 30 else logger_level w)"

definition is_enabled_for :: "world \<Rightarrow> level \<Rightarrow> bool" where
  "is_enabled_for w l = (levelno l \<ge> get_effective_level w)"

text \<open>
  One call of \<open>log_request\<close>: the \<open>log_data\<close> dictionary (its \<open>timestamp\<close> entry left out)
  and the level it is logged at. The \<open>error\<close> entry is present only for a truthy
  \<open>error\<close> argument.
\<close>

record log_entry =
  log_user_id :: string
  log_catalog_id :: string
  log_status :: string
  log_latency_ms :: real
  log_ai_provider :: string
  log_error :: "pyval option"
  log_level :: level

text \<open>
  What a request changes: the audit log (the records the logger has emitted), the trace
  of outside effects, the files on disk, and the number of clock readings taken.
\<close>

record state =
  audit :: "log_entry list"
  trace :: "event list"
  files :: "string \<rightharpoonup> byte list"
  ticks :: nat

definition log_request ::
  "world \<Rightarrow> state \<Rightarrow> string \<Rightarrow> string \<Rightarrow> string \<Rightarrow> real \<Rightarrow> string \<Rightarrow> pyval option \<Rightarrow>
   state" where
  "log_request w st uid cid status' latency provider error =
     (let has_error = (case error of None \<Rightarrow> False | Some m \<Rightarrow> truthy m);
          log_data = \<lparr>log_user_id = uid, log_catalog_id = cid, log_status = status',
                      log_latency_ms = latency, log_ai_provider = provider,
                      log_error = (if has_error then error else None),
                      log_level = (if has_error then ERROR else INFO)\<rparr>
      in if is_enabled_for w (log_level log_data)
         then st\<lparr>audit := audit st @ [log_data]\<rparr>
         else st)"

text \<open>Of the records handed to the logger, those it emits.\<close>

definition written :: "world \<Rightarrow> log_entry list \<Rightarrow> log_entry list" where
  "written w es = filter (\<lambda>en. is_enabled_for w (log_level en)) es"

definition time_time :: "world \<Rightarrow> state \<Rightarrow> real \<times> state" where
  "time_time w st = (clock w (ticks st), st\<lparr>ticks := Suc (ticks st)\<rparr>)"

section \<open>Base64 as the standard library decodes it\<close>

definition b64_alphabet :: string where
  "b64_alphabet = ''ABCDEFGHIJKLMNOPQRSTUVWXYZabcdefghijklmnopqrstuvwxyz0123456789+/''"

fun index_of :: "'a list \<Rightarrow> 'a \<Rightarrow> nat option" where
  "index_of [] x = None"
| "index_of (y # ys) x = (if x = y then Some 0 else map_option Suc (index_of ys x))"

definition table_a2b_base64 :: "char \<Rightarrow> byte option" where
  "table_a2b_base64 ch = map_option of_nat (index_of b64_alphabet ch)"

definition table_b2a_base64 :: "byte \<Rightarrow> char" where
  "table_b2a_base64 v = b64_alphabet ! unat v"

text \<open>
  \<open>binascii.a2b_base64\<close> in its default (non-strict) mode, which \<open>base64.b64decode\<close>
  calls: characters outside the alphabet are skipped, a pad sequence that completes a
  quad ends the input, and leftover characters are an error.
\<close>

fun a2b_loop :: "string \<Rightarrow> nat \<Rightarrow> byte \<Rightarrow> nat \<Rightarrow> byte list \<Rightarrow> exc + byte list" where
  "a2b_loop [] quad_pos leftchar pads out =
     (if quad_pos \<noteq> 0 then
        (if quad_pos = 1 then
           Inl (Exc BinasciiError
                  (PFmt [PStr ''Invalid base64-encoded string: number of data characters ('',
                         PInt (int (length out div 3 * 4 + 1)),
                         PStr '') cannot be 1 more than a multiple of 4'']))
         else Inl (Exc BinasciiError (PStr ''Incorrect padding'')))
      else Inr out)"
| "a2b_loop (ch # rest) quad_pos leftchar pads out =
     (if ch = CHR ''='' then
        (if quad_pos \<ge> 2 \<and> quad_pos + (pads + 1) \<ge> 4 then Inr out
         else a2b_loop rest quad_pos leftchar (if quad_pos \<ge> 2 then pads + 1 else pads) out)
      else
        (case table_a2b_base64 ch of
           None \<Rightarrow> a2b_loop rest quad_pos leftchar pads out
         | Some this_ch \<Rightarrow>
             (if quad_pos = 0 then a2b_loop rest 1 this_ch 0 out
              else if quad_pos = 1 then
                a2b_loop rest 2 (this_ch AND 0x0f) 0
                  (out @ [push_bit 2 leftchar OR drop_bit 4 this_ch])
              else if quad_pos = 2 then
                a2b_loop rest 3 (this_ch AND 0x03) 0
                  (out @ [push_bit 4 leftchar OR drop_bit 2 this_ch])
              else a2b_loop rest 0 0 0 (out @ [push_bit 6 leftchar OR this_ch]))))"

definition b64decode :: "string \<Rightarrow> exc + byte list" where
  "b64decode s =
     (if list_ex (\<lambda>ch. (of_char ch :: nat) \<ge> 128) s
      then Inl (Exc ValueError (PStr ''string argument should contain only ASCII characters''))
      else a2b_loop s 0 0 0 [])"

text \<open>
  The standard encoding (RFC 4648, \<open>base64.b64encode\<close>): what an inline payload holds
  for given bytes. Three bytes \<open>a b c\<close> give four 6-bit values; a final group of one or
  two bytes is filled with zero bits and padded with \<open>=\<close>.
\<close>

definition enc0 :: "byte \<Rightarrow> byte" where
  "enc0 a = drop_bit 2 a"

definition enc1 :: "byte \<Rightarrow> byte \<Rightarrow> byte" where
  "enc1 a b = push_bit 4 (a AND 3) OR drop_bit 4 b"

definition enc2 :: "byte \<Rightarrow> byte \<Rightarrow> byte" where
  "enc2 b c = push_bit 2 (b AND 15) OR drop_bit 6 c"

definition enc3 :: "byte \<Rightarrow> byte" where
  "enc3 c = c AND 63"

fun b64encode :: "byte list \<Rightarrow> string" where
  "b64encode [] = []"
| "b64encode [a] =
     [table_b2a_base64 (enc0 a), table_b2a_base64 (enc1 a 0), CHR ''='', CHR ''='']"
| "b64encode [a, b] =
     [table_b2a_base64 (enc0 a), table_b2a_base64 (enc1 a b), table_b2a_base64 (enc2 b 0),
      CHR ''='']"
| "b64encode (a # b # c # rest) =
     [table_b2a_base64 (enc0 a), table_b2a_base64 (enc1 a b), table_b2a_base64 (enc2 b c),
      table_b2a_base64 (enc3 c)] @ b64encode rest"

text \<open>The inline locator the Imagen path returns for a base64 payload.\<close>

definition data_url :: "string \<Rightarrow> string" where
  "data_url img_data = ''data:image/png;base64,'' @ img_data"

section \<open>routers/generate.py: fetching and saving images\<close>

definition download_image :: "world \<Rightarrow> state \<Rightarrow> string \<Rightarrow> (exc + byte list) \<times> state" where
  "download_image w st url =
     (let st1 = st\<lparr>trace := trace st @ [HttpGet url]\<rparr>
      in case http_get w url of
           Inl e \<Rightarrow> (Inl e, st1)
         | Inr (status', data) \<Rightarrow>
             (if status' = 200 then (Inr data, st1)
              else (Inl (Exc Exception
                           (PFmt [PStr ''Failed to download image from '', PStr url,
                                  PStr '': '', PInt status'])), st1)))"

definition read_file_to_bytes :: "state \<Rightarrow> string \<Rightarrow> exc + byte list" where
  "read_file_to_bytes st file_path =
     (case files st file_path of
        None \<Rightarrow> Inl (Exc Exception (PFmt [PStr ''File not found: '', PStr file_path]))
      | Some data \<Rightarrow> Inr data)"

text \<open>
  What \<open>get_image_data\<close> can be handed: bytes, an upload object, or a string. An upload
  object is of class \<open>fastapi.UploadFile\<close> (the name \<open>generate.py\<close> imports and tests with
  \<open>isinstance\<close>) or of its base class \<open>starlette.datastructures.UploadFile\<close>; it carries
  what \<open>await source.read()\<close> would do.
\<close>

datatype upload_class = FastAPI_UploadFile | Starlette_UploadFile

datatype source = Bytes "byte list" | Upload upload_class "exc + byte list" | Str string

definition type_repr :: "upload_class \<Rightarrow> string" where
  "type_repr cls =
     ''<class '' @ [CHR 0x27]
     @ (case cls of FastAPI_UploadFile \<Rightarrow> ''fastapi.datastructures.UploadFile''
        | Starlette_UploadFile \<Rightarrow> ''starlette.datastructures.UploadFile'')
     @ [CHR 0x27] @ ''>''"

text \<open>
  \<open>get_image_data\<close>: bytes are returned, an instance of \<open>fastapi.UploadFile\<close> is read, a
  string is fetched when it is a URL and read as a local path otherwise, and anything
  else, an upload object of the base class included, raises.
\<close>

definition get_image_data :: "world \<Rightarrow> state \<Rightarrow> source \<Rightarrow> (exc + byte list) \<times> state" where
  "get_image_data w st source =
     (case source of
        Bytes data \<Rightarrow> (Inr data, st)
      | Upload cls r \<Rightarrow>
          (if cls = FastAPI_UploadFile then (r, st)
           else (Inl (Exc Exception
                        (PFmt [PStr ''Unsupported image source type: '', PStr (type_repr cls)])),
                 st))
      | Str s \<Rightarrow>
          (if startswith s ''http://'' \<or> startswith s ''https://''
           then download_image w st s
           else (read_file_to_bytes st s, st)))"

text \<open>\<open>os.path.join\<close> on POSIX: an absolute second part replaces the first.\<close>

definition path_join :: "string \<Rightarrow> string \<Rightarrow> string" where
  "path_join a b =
     (if startswith b ''/'' then b
      else if a = [] \<or> last a = CHR ''/'' then a @ b
      else a @ ''/'' @ b)"

definition write_file :: "world \<Rightarrow> state \<Rightarrow> string \<Rightarrow> byte list \<Rightarrow> (exc + unit) \<times> state" where
  "write_file w st path data =
     (case fs_fault w path of
        Some m \<Rightarrow> (Inl (Exc OSError m), st)
      | None \<Rightarrow> (Inr (), st\<lparr>files := (files st)(path \<mapsto> data)\<rparr>))"

definition save_image :: "world \<Rightarrow> state \<Rightarrow> string \<Rightarrow> string \<Rightarrow> (exc + string) \<times> state" where
  "save_image w st image_url_or_data filename =
     (case fs_fault w ''media'' of
        Some m \<Rightarrow> (Inl (Exc OSError m), st)
      | None \<Rightarrow>
          (let filepath = path_join ''media'' filename
           in if startswith image_url_or_data ''data:image'' then
                (if CHR '','' \<notin> set image_url_or_data then
                   (Inl (Exc ValueError (PStr ''not enough values to unpack (expected 2, got 1)'')),
                    st)
                 else
                   (let encoded = tl (dropWhile (\<lambda>ch. ch \<noteq> CHR '','') image_url_or_data)
                    in case b64decode encoded of
                         Inl e \<Rightarrow> (Inl e, st)
                       | Inr image_data \<Rightarrow>
                           (case write_file w st filepath image_data of
                              (Inl e, st1) \<Rightarrow> (Inl e, st1)
                            | (Inr u, st1) \<Rightarrow> (Inr filepath, st1))))
              else
                (case download_image w st image_url_or_data of
                   (Inl e, st1) \<Rightarrow> (Inl e, st1)
                 | (Inr image_data, st1) \<Rightarrow>
                     (case write_file w st1 filepath image_data of
                        (Inl e, st2) \<Rightarrow> (Inl e, st2)
                      | (Inr u, st2) \<Rightarrow> (Inr filepath, st2)))))"

section \<open>routers/generate.py: create_image\<close>

text \<open>
  The form of one request. An uploaded file is given by what \<open>await file.read()\<close> would
  do: raise or yield the bytes.
\<close>

record form =
  user_id :: string
  api_key :: string
  catalog_id :: string
  user_image :: "(exc + byte list) option"
  catalog_image :: "(exc + byte list) option"
  user_image_url :: "string option"
  catalog_image_url :: "string option"

record generate_response =
  status :: string
  image_url :: "string option"
  latency_ms :: real

text \<open>
  What leaves a stage of the \<open>try\<close> block other than its value: an \<open>HTTPException\<close>,
  which the outer handler re-raises as it is, or any other exception, which the outer
  handler logs and turns into a 500.
\<close>

datatype raised = Http http_exception | Other exc

text \<open>Sequencing of stages: the first raise ends the block.\<close>

definition bind ::
  "(state \<Rightarrow> (raised + 'a) \<times> state) \<Rightarrow> ('a \<Rightarrow> state \<Rightarrow> (raised + 'b) \<times> state) \<Rightarrow>
   state \<Rightarrow> (raised + 'b) \<times> state" where
  "bind m k st = (case m st of (Inl r, st1) \<Rightarrow> (Inl r, st1) | (Inr x, st1) \<Rightarrow> k x st1)"

text \<open>\<open>int(x)\<close> of a float truncates towards zero.\<close>

definition py_int :: "real \<Rightarrow> int" where
  "py_int x = (if x \<ge> 0 then \<lfloor>x\<rfloor> else \<lceil>x\<rceil>)"

text \<open>
  The handler pattern of every failing branch: read the clock, log one \<open>error\<close> record
  with the elapsed milliseconds, raise the \<open>HTTPException\<close>.
\<close>

definition fail_with ::
  "world \<Rightarrow> form \<Rightarrow> real \<Rightarrow> string \<Rightarrow> pyval \<Rightarrow> int \<Rightarrow> pyval \<Rightarrow> state \<Rightarrow>
   (raised + 'a) \<times> state" where
  "fail_with w f start_time ai_provider_name error_msg code detail' st =
     (let (now, st1) = time_time w st;
          latency = (now - start_time) * 1000
      in (Inl (Http (HTTPException code detail')),
          log_request w st1 (user_id f) (catalog_id f) ''error'' latency ai_provider_name
            (Some error_msg)))"

text \<open>
  One side of the input: the uploaded file if present, else the URL if non-empty. The
  object FastAPI binds to an \<open>UploadFile\<close> parameter is the one Starlette's form parser
  built, of class \<open>starlette.datastructures.UploadFile\<close>.
\<close>

definition resolve_image ::
  "world \<Rightarrow> (exc + byte list) option \<Rightarrow> string option \<Rightarrow> string \<Rightarrow> state \<Rightarrow>
   (raised + byte list \<times> string) \<times> state" where
  "resolve_image w upload url missing st =
     (case upload of
        Some r \<Rightarrow>
          (case get_image_data w st (Upload Starlette_UploadFile r) of
             (Inl e, st1) \<Rightarrow> (Inl (Other e), st1)
           | (Inr data, st1) \<Rightarrow> (Inr (data, ''uploaded_file''), st1))
      | None \<Rightarrow>
          (case url of
             Some u \<Rightarrow>
               (if u \<noteq> [] then
                  (case get_image_data w st (Str u) of
                     (Inl e, st1) \<Rightarrow> (Inl (Other e), st1)
                   | (Inr data, st1) \<Rightarrow> (Inr (data, u), st1))
                else (Inl (Http (HTTPException 400 (PStr missing))), st))
           | None \<Rightarrow> (Inl (Http (HTTPException 400 (PStr missing))), st)))"

definition resolve_inputs ::
  "world \<Rightarrow> form \<Rightarrow> state \<Rightarrow> (raised + (byte list \<times> string) \<times> (byte list \<times> string)) \<times> state" where
  "resolve_inputs w f =
     bind (resolve_image w (user_image f) (user_image_url f)
             ''Either user_image file or user_image_url must be provided'')
       (\<lambda>user_img.
          bind (resolve_image w (catalog_image f) (catalog_image_url f)
                  ''Either catalog_image file or catalog_image_url must be provided'')
            (\<lambda>catalog_img st. (Inr (user_img, catalog_img), st)))"

text \<open>\<open>d.get(k)\<close> on a dictionary's items.\<close>

definition item :: "(string \<times> pyval) list \<Rightarrow> string \<Rightarrow> pyval" where
  "item d k = (case map_of d k of Some v \<Rightarrow> v | None \<Rightarrow> PNone)"

text \<open>Step 1: verify authentication.\<close>

definition auth_stage ::
  "world \<Rightarrow> form \<Rightarrow> real \<Rightarrow> string \<Rightarrow> state \<Rightarrow> (raised + unit) \<times> state" where
  "auth_stage w f start_time ai_provider_name st =
     (case verify_auth (http_client_init (environ w)) (backend w) (user_id f) (api_key f)
             (trace st) of
        (Inl e, tr) \<Rightarrow>
          fail_with w f start_time ai_provider_name
            (PFmt [PStr ''Backend connection error during auth: '', exc_str e])
            503
            (PFmt [PStr ''Unable to verify authentication. Backend may be unavailable: '',
                   exc_str e])
            (st\<lparr>trace := tr\<rparr>)
      | (Inr auth_result, tr) \<Rightarrow>
          (case auth_result of
             PDict d \<Rightarrow>
               (if py_eq_int (item d ''status'') 401 \<or> py_eq_str (item d ''error'') ''Unauthorized''
                then
                  (let error_detail =
                         py_or (item d ''detail'')
                           (py_or (item d ''message'') (PStr ''Invalid user_id or api_key''))
                   in fail_with w f start_time ai_provider_name
                        (PFmt [PStr ''Unauthorized: '', error_detail])
                        401
                        (PFmt [PStr ''Authentication failed: '', error_detail])
                        (st\<lparr>trace := tr\<rparr>))
                else (Inr (), st\<lparr>trace := tr\<rparr>))
           | _ \<Rightarrow> (Inl (Other (attribute_error auth_result ''get'')), st\<lparr>trace := tr\<rparr>)))"

text \<open>Step 2: check credits.\<close>

definition credits_stage ::
  "world \<Rightarrow> form \<Rightarrow> real \<Rightarrow> string \<Rightarrow> state \<Rightarrow> (raised + unit) \<times> state" where
  "credits_stage w f start_time ai_provider_name st =
     (case check_credits (http_client_init (environ w)) (backend w) (user_id f) (trace st) of
        (Inl e, tr) \<Rightarrow>
          fail_with w f start_time ai_provider_name
            (PFmt [PStr ''Backend connection error during credit check: '', exc_str e])
            503
            (PFmt [PStr ''Unable to check credits. Backend may be unavailable: '', exc_str e])
            (st\<lparr>trace := tr\<rparr>)
      | (Inr credits_result, tr) \<Rightarrow>
          (case credits_result of
             PDict d \<Rightarrow>
               (if py_eq_int (item d ''status'') 403 \<or> py_eq_str (item d ''error'') ''Forbidden''
                then
                  (let error_detail =
                         py_or (item d ''detail'')
                           (py_or (item d ''message'') (PStr ''Insufficient credits''))
                   in fail_with w f start_time ai_provider_name
                        (PFmt [PStr ''Insufficient credits: '', error_detail])
                        403
                        (PFmt [PStr ''Insufficient credits: '', error_detail])
                        (st\<lparr>trace := tr\<rparr>))
                else if \<not> truthy (case map_of d ''has_credits'' of
                                     Some v \<Rightarrow> v | None \<Rightarrow> PBool False)
                then
                  (let error_detail =
                         py_or (item d ''detail'')
                           (py_or (item d ''message'') (PStr ''No credits available''));
                       available_credits =
                         (case map_of d ''available_credits'' of
                            Some v \<Rightarrow> v | None \<Rightarrow> PStr ''unknown'')
                   in fail_with w f start_time ai_provider_name
                        (PFmt [PStr ''No credits: '', error_detail, PStr '' (available: '',
                               available_credits, PStr '')''])
                        403
                        (PFmt [PStr ''Insufficient credits: '', error_detail,
                               PStr ''. Available credits: '', available_credits])
                        (st\<lparr>trace := tr\<rparr>))
                else (Inr (), st\<lparr>trace := tr\<rparr>))
           | _ \<Rightarrow> (Inl (Other (attribute_error credits_result ''get'')), st\<lparr>trace := tr\<rparr>)))"

text \<open>
  Step 3: stage the two images in temporary files, resolve the provider, generate. The
  temporary files are unlinked again whatever happens and are not kept in \<open>files\<close>.
  \<open>ValueError\<close> takes the configuration branch, every other exception the generic one.
\<close>

definition provider_attempt :: "world \<Rightarrow> state \<Rightarrow> (exc + string) \<times> state" where
  "provider_attempt w st =
     (case tempfile_fault w of
        Some m \<Rightarrow> (Inl (Exc OSError m), st)
      | None \<Rightarrow>
          (case get_ai_provider (environ w) of
             Inl e \<Rightarrow> (Inl e, st)
           | Inr ai_provider \<Rightarrow>
               (generate_image (openai_images_generate w) (gemini_generate_image w) ai_provider,
                st\<lparr>trace := trace st @ [GenerateCall (provider_label ai_provider)]\<rparr>)))"

definition generate_stage ::
  "world \<Rightarrow> form \<Rightarrow> real \<Rightarrow> string \<Rightarrow> state \<Rightarrow> (raised + string) \<times> state" where
  "generate_stage w f start_time ai_provider_name st =
     (case provider_attempt w st of
        (Inr generated_image_url, st1) \<Rightarrow> (Inr generated_image_url, st1)
      | (Inl e, st1) \<Rightarrow>
          (if is_ValueError e then
             fail_with w f start_time ai_provider_name
               (PFmt [PStr ''Configuration error: '', exc_str e])
               500
               (PFmt [PStr ''AI provider configuration error: '', exc_str e,
                      PStr ''. Please check environment variables.''])
               st1
           else
             fail_with w f start_time ai_provider_name
               (PFmt [PStr ''Image generation failed: '', exc_str e])
               500
               (PFmt [PStr ''Image generation failed: '', exc_str e])
               st1))"

text \<open>Step 4: save the image locally.\<close>

definition filename_of :: "form \<Rightarrow> real \<Rightarrow> string" where
  "filename_of f now = user_id f @ ''_'' @ catalog_id f @ ''_'' @ str_int (py_int now) @ ''.png''"

definition persist_stage ::
  "world \<Rightarrow> form \<Rightarrow> real \<Rightarrow> string \<Rightarrow> string \<Rightarrow> state \<Rightarrow> (raised + string) \<times> state" where
  "persist_stage w f start_time ai_provider_name generated_image_url st =
     (let (now, st1) = time_time w st;
          filename = filename_of f now
      in case save_image w st1 generated_image_url filename of
           (Inr local_image_path, st2) \<Rightarrow> (Inr (''/media/'' @ filename), st2)
         | (Inl e, st2) \<Rightarrow>
             (if is_ClientError e then
                fail_with w f start_time ai_provider_name
                  (PFmt [PStr ''Network error downloading image: '', exc_str e])
                  502
                  (PFmt [PStr ''Failed to download generated image: '', exc_str e])
                  st2
              else
                fail_with w f start_time ai_provider_name
                  (PFmt [PStr ''Image save failed: '', exc_str e])
                  500
                  (PFmt [PStr ''Failed to save image: '', exc_str e])
                  st2))"

text \<open>
  Steps 5 and 6: send the webhook, whose exception is logged as a warning and dropped;
  log the success and return the response.
\<close>

definition notify_respond ::
  "world \<Rightarrow> form \<Rightarrow> real \<Rightarrow> string \<Rightarrow> string \<Rightarrow> state \<Rightarrow>
   (raised + generate_response) \<times> state" where
  "notify_respond w f start_time ai_provider_name img st =
     (let (now, st1) = time_time w st;
          latency = (now - start_time) * 1000;
          st2 = (case send_webhook (http_client_init (environ w)) (backend w) (user_id f) 1
                        (catalog_id f) img latency (trace st1) of
                   (Inl e, tr) \<Rightarrow>
                     log_request w (st1\<lparr>trace := tr\<rparr>) (user_id f) (catalog_id f) ''warning''
                       latency ai_provider_name (Some (PFmt [PStr ''Webhook failed: '', exc_str e]))
                 | (Inr ack, tr) \<Rightarrow> st1\<lparr>trace := tr\<rparr>);
          st3 = log_request w st2 (user_id f) (catalog_id f) ''success'' latency ai_provider_name
                  None
      in (Inr \<lparr>status = ''success'', image_url = Some img, latency_ms = latency\<rparr>, st3))"

text \<open>The \<open>try\<close> block up to the end of each step, each including the steps before it.\<close>

definition run_to_auth ::
  "world \<Rightarrow> form \<Rightarrow> real \<Rightarrow> string \<Rightarrow> state \<Rightarrow> (raised + unit) \<times> state" where
  "run_to_auth w f start_time ai_provider_name =
     bind (resolve_inputs w f) (\<lambda>imgs. auth_stage w f start_time ai_provider_name)"

definition run_to_credits ::
  "world \<Rightarrow> form \<Rightarrow> real \<Rightarrow> string \<Rightarrow> state \<Rightarrow> (raised + unit) \<times> state" where
  "run_to_credits w f start_time ai_provider_name =
     bind (run_to_auth w f start_time ai_provider_name)
       (\<lambda>u. credits_stage w f start_time ai_provider_name)"

definition run_to_generate ::
  "world \<Rightarrow> form \<Rightarrow> real \<Rightarrow> string \<Rightarrow> state \<Rightarrow> (raised + string) \<times> state" where
  "run_to_generate w f start_time ai_provider_name =
     bind (run_to_credits w f start_time ai_provider_name)
       (\<lambda>u. generate_stage w f start_time ai_provider_name)"

definition run_to_persist ::
  "world \<Rightarrow> form \<Rightarrow> real \<Rightarrow> string \<Rightarrow> state \<Rightarrow> (raised + string) \<times> state" where
  "run_to_persist w f start_time ai_provider_name =
     bind (run_to_generate w f start_time ai_provider_name)
       (persist_stage w f start_time ai_provider_name)"

definition try_block ::
  "world \<Rightarrow> form \<Rightarrow> real \<Rightarrow> string \<Rightarrow> state \<Rightarrow> (raised + generate_response) \<times> state" where
  "try_block w f start_time ai_provider_name =
     bind (run_to_persist w f start_time ai_provider_name)
       (notify_respond w f start_time ai_provider_name)"

text \<open>
  The endpoint: the response or the \<open>HTTPException\<close> the client receives, and the state
  the request leaves behind.
\<close>

definition create_image ::
  "world \<Rightarrow> form \<Rightarrow> state \<Rightarrow> (http_exception + generate_response) \<times> state" where
  "create_image w f st0 =
     (let (start_time, st1) = time_time w st0;
          ai_provider_name = getenv (environ w) ''AI_PROVIDER'' ''openai''
      in case try_block w f start_time ai_provider_name st1 of
           (Inr response, st) \<Rightarrow> (Inr response, st)
         | (Inl (Http h), st) \<Rightarrow> (Inl h, st)
         | (Inl (Other e), st) \<Rightarrow>
             (let (now, st2) = time_time w st;
                  latency = (now - start_time) * 1000;
                  error_msg = PFmt [PStr ''Unexpected error ('', PStr (class_name (exc_class e)),
                                    PStr ''): '', exc_str e]
              in (Inl (HTTPException 500 (PFmt [PStr ''Internal server error: '', exc_str e])),
                  log_request w st2 (user_id f) (catalog_id f) ''error'' latency ai_provider_name
                    (Some error_msg))))"

text \<open>The clock reading and provider name \<open>create_image\<close> starts from.\<close>

definition start_of :: "world \<Rightarrow> state \<Rightarrow> real" where
  "start_of w st0 = clock w (ticks st0)"

definition started :: "state \<Rightarrow> state" where
  "started st0 = st0\<lparr>ticks := Suc (ticks st0)\<rparr>"

definition provider_name_of :: "world \<Rightarrow> string" where
  "provider_name_of w = getenv (environ w) ''AI_PROVIDER'' ''openai''"

text \<open>The records of the audit log that are not webhook warnings.\<close>

definition primary :: "log_entry list \<Rightarrow> log_entry list" where
  "primary l = filter (\<lambda>e. log_status e \<noteq> ''warning'') l"

text \<open>The record a failing branch logs, and the two records of a success.\<close>

definition error_entry :: "form \<Rightarrow> real \<Rightarrow> string \<Rightarrow> pyval \<Rightarrow> log_entry" where
  "error_entry f latency provider msg =
     \<lparr>log_user_id = user_id f, log_catalog_id = catalog_id f, log_status = ''error'',
      log_latency_ms = latency, log_ai_provider = provider, log_error = Some msg,
      log_level = ERROR\<rparr>"

definition warning_entry :: "form \<Rightarrow> real \<Rightarrow> string \<Rightarrow> pyval \<Rightarrow> log_entry" where
  "warning_entry f latency provider msg =
     \<lparr>log_user_id = user_id f, log_catalog_id = catalog_id f, log_status = ''warning'',
      log_latency_ms = latency, log_ai_provider = provider, log_error = Some msg,
      log_level = ERROR\<rparr>"

definition success_entry :: "form \<Rightarrow> real \<Rightarrow> string \<Rightarrow> log_entry" where
  "success_entry f latency provider =
     \<lparr>log_user_id = user_id f, log_catalog_id = catalog_id f, log_status = ''success'',
      log_latency_ms = latency, log_ai_provider = provider, log_error = None,
      log_level = INFO\<rparr>"

text \<open>
  What a stage before the webhook does to the audit log, from the state \<open>st\<close> it starts
  in: nothing when it passes, nothing when it raises an exception that is left to the
  outer handler, nothing when it raises the 400 of a missing input, and exactly one
  \<open>error\<close> record handed to the logger when it raises any other \<open>HTTPException\<close>.
\<close>

definition well_logged :: "world \<Rightarrow> state \<Rightarrow> (raised + 'a) \<times> state \<Rightarrow> bool" where
  "well_logged w st res =
     (case fst res of
        Inr x \<Rightarrow> audit (snd res) = audit st
      | Inl (Other e) \<Rightarrow> audit (snd res) = audit st
      | Inl (Http h) \<Rightarrow>
          (if status_code h = 400 then audit (snd res) = audit st
           else (\<exists>en. audit (snd res) = audit st @ written w [en] \<and> log_status en = ''error''
                      \<and> log_level en = ERROR \<and> log_error en \<noteq> None)))"

section \<open>Concrete inputs\<close>

text \<open>A client that sends the X-User-ID header, and a limiter with a ceiling of one.\<close>

definition alice :: request where
  "alice = \<lparr>client_host = Some ''10.0.0.1'', x_user_id = Some ''alice''\<rparr>"

definition after_first :: throttle where
  "after_first = snd (dispatch (throttle_init 1 0) alice 0)"

text \<open>
  The limiter with the default ceiling of ten after ten requests of that client, one a
  second.
\<close>

definition after_ten :: throttle where
  "after_ten =
     serve (throttle_init 10 0)
       (map (\<lambda>k. (alice, real k)) [1, 2, 3, 4, 5, 6, 7, 8, 9, 10])"

text \<open>A backend that answers every attempt with HTTP 401 and the JSON body \<open>[]\<close>.\<close>

definition array_401 :: "string \<Rightarrow> nat \<Rightarrow> attempt" where
  "array_401 url k = Response 401 (JsonBody (PList []))"

text \<open>
  Backends whose first attempts raise and whose later attempt answers 200 with a JSON
  object: after two connection errors, after one timeout, and after one exception that
  is neither (\<open>RuntimeError\<close>); and a backend that is never reachable.
\<close>

definition connection_refused :: exc where
  "connection_refused = Exc ClientError (PStr ''Cannot connect to host'')"

definition session_closed :: exc where
  "session_closed = Exc (OtherError ''RuntimeError'') (PStr ''Session is closed'')"

definition ok_body :: pyval where
  "ok_body = PDict [(''authorized'', PBool True)]"

definition third_time_lucky :: "string \<Rightarrow> nat \<Rightarrow> attempt" where
  "third_time_lucky url k =
     (if k < 2 then Raises connection_refused else Response 200 (JsonBody ok_body))"

definition second_time_lucky :: "string \<Rightarrow> nat \<Rightarrow> attempt" where
  "second_time_lucky url k =
     (if k < 1 then Raises (Exc TimeoutError (PStr [])) else Response 200 (JsonBody ok_body))"

definition runtime_error_once :: "string \<Rightarrow> nat \<Rightarrow> attempt" where
  "runtime_error_once url k =
     (if k < 1 then Raises session_closed else Response 200 (JsonBody ok_body))"

definition unreachable :: "string \<Rightarrow> nat \<Rightarrow> attempt" where
  "unreachable url k = Raises connection_refused"

definition auth_url :: string where
  "auth_url = ''http://localhost:8000/api/v1/auth/verify/''"

definition auth_attempt :: event where
  "auth_attempt =
     BackendAttempt ''POST'' auth_url (PDict [(''user_id'', PStr ''u1''), (''api_key'', PStr ''k1'')])"

text \<open>
  A quiet world: no environment variables but an OpenAI key, a clock that reads
  \<open>100 + n\<close> at its n-th reading, a backend that answers every attempt with 200 and
  \<open>has_credits: true\<close>, image URLs that yield three bytes, no filesystem fault, an
  OpenAI service that returns one URL, and the logger at the level \<open>INFO\<close> that an unset
  \<open>LOG_LEVEL\<close> gives it.
\<close>

definition png :: "byte list" where
  "png = [137, 80, 78]"

definition quiet :: world where
  "quiet =
     \<lparr>environ = [''OPENAI_API_KEY'' \<mapsto> ''sk-test''],
      clock = (\<lambda>n. 100 + real n),
      backend = (\<lambda>url k. Response 200 (JsonBody (PDict [(''has_credits'', PBool True)]))),
      http_get = (\<lambda>url. Inr (200, png)),
      fs_fault = (\<lambda>path. None),
      tempfile_fault = None,
      openai_images_generate = Inr [''https://cdn.example/out.png''],
      gemini_generate_image = Inl (Exc Exception (PStr ''unused'')),
      logger_level = 20\<rparr>"

definition fresh :: state where
  "fresh = \<lparr>audit = [], trace = [], files = Map.empty, ticks = 0\<rparr>"

text \<open>A request that names both images by URL, and one that uploads them.\<close>

definition url_form :: form where
  "url_form =
     \<lparr>user_id = ''u1'', api_key = ''k1'', catalog_id = ''c9'',
      user_image = None, catalog_image = None,
      user_image_url = Some ''https://img.example/user.jpg'',
      catalog_image_url = Some ''https://img.example/catalog.jpg''\<rparr>"

definition upload_form :: form where
  "upload_form =
     \<lparr>user_id = ''u1'', api_key = ''k1'', catalog_id = ''c9'',
      user_image = Some (Inr [1, 2]), catalog_image = Some (Inr [3, 4]),
      user_image_url = None, catalog_image_url = None\<rparr>"

text \<open>
  Variations of the quiet world: the auth endpoint answers HTTP 500; the webhook endpoint
  is unreachable; the credits endpoint answers 200 with an empty JSON object, or with
  \<open>has_credits\<close> the string \<open>false\<close>; the generated image cannot be fetched (the
  connection is refused, the fetch times out, the answer is 404); the disk is full; the
  logger is at \<open>WARNING\<close>; and four provider configurations.
\<close>

definition webhook_url :: string where
  "webhook_url = ''http://localhost:8000/api/v1/inference/webhook/''"

definition credits_url :: string where
  "credits_url = ''http://localhost:8000/api/v1/credits/check/?user_id=u1''"

definition auth_down :: world where
  "auth_down =
     quiet\<lparr>backend := (\<lambda>url k.
        if url = auth_url
        then Response 500 (JsonBody (PDict [(''detail'', PStr ''database unavailable'')]))
        else backend quiet url k)\<rparr>"

definition webhook_down :: world where
  "webhook_down =
     quiet\<lparr>backend := (\<lambda>url k.
        if url = webhook_url then Raises connection_refused else backend quiet url k)\<rparr>"



definition generated_url :: string where
  "generated_url = ''https://cdn.example/out.png''"

definition fetch_down :: world where
  "fetch_down =
     quiet\<lparr>http_get := (\<lambda>url.
        if url = generated_url then Inl connection_refused else http_get quiet url)\<rparr>"

definition fetch_timeout :: world where
  "fetch_timeout =
     quiet\<lparr>http_get := (\<lambda>url.
        if url = generated_url then Inl (Exc TimeoutError (PStr [])) else http_get quiet url)\<rparr>"

definition fetch_404 :: world where
  "fetch_404 =
     quiet\<lparr>http_get := (\<lambda>url.
        if url = generated_url then Inr (404, []) else http_get quiet url)\<rparr>"

definition webhook_down_warning_level :: world where
  "webhook_down_warning_level =
     webhook_down\<lparr>environ := (environ webhook_down)(''LOG_LEVEL'' \<mapsto> ''WARNING''),
                  logger_level := 30\<rparr>"

definition disk_full :: world where
  "disk_full = quiet\<lparr>fs_fault := (\<lambda>path.
     if path = ''media'' then None else Some (PStr ''No space left on device''))\<rparr>"

definition sora_world :: world where
  "sora_world = quiet\<lparr>environ := [''AI_PROVIDER'' \<mapsto> ''sora'']\<rparr>"

definition dalle_world :: world where
  "dalle_world = quiet\<lparr>environ := [''AI_PROVIDER'' \<mapsto> ''dalle'']\<rparr>"

definition keyless_world :: world where
  "keyless_world = quiet\<lparr>environ := Map.empty\<rparr>"

definition gemini_keyless_world :: world where
  "gemini_keyless_world = quiet\<lparr>environ := [''AI_PROVIDER'' \<mapsto> ''Gemini'']\<rparr>"

text \<open>The events of a request of \<open>url_form\<close> against the local backend.\<close>

definition input_fetches :: "event list" where
  "input_fetches =
     [HttpGet ''https://img.example/user.jpg'', HttpGet ''https://img.example/catalog.jpg'']"

definition credits_attempt :: event where
  "credits_attempt = BackendAttempt ''GET'' credits_url PNone"

definition webhook_attempt :: "string \<Rightarrow> real \<Rightarrow> event" where
  "webhook_attempt img latency =
     BackendAttempt ''POST'' webhook_url
       (PDict [(''user_id'', PStr ''u1''), (''used_credits'', PInt 1),
               (''catalog_id'', PStr ''c9''), (''image_url'', PStr img),
               (''latency_ms'', PFloat latency)])"

lemma requests_of_cleanup:
  "filter (\<lambda>x. now - 60 < x) (requests_of (cleanup_old_entries t now) u)
     = filter (\<lambda>x. now - 60 < x) (requests_of t u)"
  by (auto simp: requests_of_def cleanup_old_entries_def Let_def split: option.splits)

lemma requests_of_update [simp]:
  "requests_of (t\<lparr>requests := (requests t)(u \<mapsto> l)\<rparr>) u = l"
  by (simp add: requests_of_def)

lemma requests_of_last_cleanup [simp]:
  "requests_of (t\<lparr>last_cleanup := x\<rparr>) u = requests_of t u"
  by (simp add: requests_of_def)

lemma rpm_cleanup [simp]:
  "requests_per_minute (cleanup_old_entries t now) = requests_per_minute t"
  by (simp add: cleanup_old_entries_def)

lemma after_first_facts:
  "requests_of after_first ''alice'' = [0]" "requests_per_minute after_first = 1"
  "client_identity alice = ''alice''" "last_cleanup after_first = 0"
  "cleanup_interval after_first = 60"
  by (simp_all add: after_first_def dispatch_def is_rate_limited_def throttle_init_def
      alice_def client_identity_def requests_of_def Let_def)

text \<open>
  The decision of \<open>dispatch\<close>: it raises the 429 exception, the detail naming the ceiling,
  exactly when the stored timestamps of the identity that are less than 60 seconds old
  (\<open>now - 60 < x\<close>) number at least the ceiling; otherwise the request is admitted and
  \<open>now\<close> is recorded. In both cases only the timestamps less than 60 seconds old stay
  stored, so an older one never counts again.
\<close>

lemma dispatch_sliding_window:
  "fst (dispatch t r now) =
     (if requests_per_minute t \<le> int (window_count (requests_of t (client_identity r)) now)
      then Inl (HTTPException 429 (rate_limit_detail (requests_per_minute t)))
      else Inr ())
   \<and> requests_of (snd (dispatch t r now)) (client_identity r) =
       filter (\<lambda>x. now - 60 < x) (requests_of t (client_identity r))
       @ (if requests_per_minute t \<le> int (window_count (requests_of t (client_identity r)) now)
          then [] else [now])
   \<and> requests_per_minute (snd (dispatch t r now)) = requests_per_minute t"
  by (simp add: dispatch_def is_rate_limited_def window_count_def Let_def requests_of_cleanup)

lemma dispatch_sliding_window_example:
  "fst (dispatch after_first alice 30) = Inl (HTTPException 429 (rate_limit_detail 1))
   \<and> requests_of (snd (dispatch after_first alice 30)) ''alice'' = [0]
   \<and> fst (dispatch after_first alice 61) = Inr ()
   \<and> requests_of (snd (dispatch after_first alice 61)) ''alice'' = [61]"
  using dispatch_sliding_window [of after_first alice 30]
    dispatch_sliding_window [of after_first alice 61]
  by (simp add: after_first_facts window_count_def)

text \<open>
  On the boundary the window of the code and the window \<open>[now - 60, now)\<close> differ: with a
  ceiling of one and one request recorded at time 0, the latter still holds that
  timestamp at \<open>now = 60\<close>, yet the request is admitted.
\<close>

lemma dispatch_boundary:
  "requests_of after_first (client_identity alice) = [0]
   \<and> requests_per_minute after_first
       \<le> int (spec_window_count (requests_of after_first (client_identity alice)) 60)
   \<and> fst (dispatch after_first alice 60) = Inr ()"
  by (simp add: after_first_facts spec_window_count_def dispatch_def is_rate_limited_def
      Let_def)

text \<open>
  Along a sequence of requests with non-decreasing clock readings, what is stored for
  an identity agrees, inside every later window, with all the timestamps recorded for
  it: pruning only ever removes timestamps that no later window holds.
\<close>

lemma dispatch_requests_of:
  "requests_of (snd (dispatch t r now)) u =
     (if u = client_identity r
      then filter (\<lambda>x. now - 60 < x) (requests_of t u)
           @ (if fst (dispatch t r now) = Inr () then [now] else [])
      else if now - last_cleanup t > cleanup_interval t
           then filter (\<lambda>x. now - 60 < x) (requests_of t u)
           else requests_of t u)"
  by (auto simp: dispatch_def is_rate_limited_def Let_def requests_of_def cleanup_old_entries_def
      split: option.splits)

lemma filter_window_mono:
  "now \<le> now' \<Longrightarrow>
   filter (\<lambda>x. now - 60 < x \<and> now' - 60 < x) l = filter (\<lambda>x. now' - 60 < (x::real)) l"
  by (rule filter_cong) auto

lemma dispatch_window:
  assumes "now \<le> now'"
  shows "filter (\<lambda>x. now' - 60 < x) (requests_of (snd (dispatch t r now)) u) =
         filter (\<lambda>x. now' - 60 < x)
           (requests_of t u
            @ (if client_identity r = u \<and> fst (dispatch t r now) = Inr () then [now] else []))"
  using assms by (auto simp: dispatch_requests_of filter_window_mono)

lemma serve_window:
  assumes "sorted (map snd evs)" "\<forall>ev \<in> set evs. snd ev \<le> now'"
  shows "filter (\<lambda>x. now' - 60 < x) (requests_of (serve t evs) u) =
         filter (\<lambda>x. now' - 60 < x) (requests_of t u @ recorded t evs u)"
  using assms
proof (induction evs arbitrary: t)
  case Nil
  show ?case by simp
next
  case (Cons ev evs)
  obtain r now where ev: "ev = (r, now)" by (cases ev)
  have le: "now \<le> now'" using Cons.prems(2) ev by simp
  have "filter (\<lambda>x. now' - 60 < x) (requests_of (serve (snd (dispatch t r now)) evs) u) =
        filter (\<lambda>x. now' - 60 < x)
          (requests_of (snd (dispatch t r now)) u @ recorded (snd (dispatch t r now)) evs u)"
    using Cons.IH [of "snd (dispatch t r now)"] Cons.prems by simp
  then show ?case
    using dispatch_window [OF le, of t r u] by (simp add: ev)
qed

lemma serve_rpm [simp]: "requests_per_minute (serve t evs) = requests_per_minute t"
  by (induction t evs rule: serve.induct)
     (simp_all add: dispatch_def is_rate_limited_def Let_def split: prod.splits)

lemma decision_by_recorded_timestamps:
  assumes "sorted (map snd evs)" "\<forall>ev \<in> set evs. snd ev \<le> now"
  shows "fst (dispatch (serve (throttle_init rpm t0) evs) r now) =
     (if rpm \<le> int (window_count (recorded (throttle_init rpm t0) evs (client_identity r)) now)
      then Inl (HTTPException 429 (rate_limit_detail rpm))
      else Inr ())"
proof -
  have "requests_of (throttle_init rpm t0) (client_identity r) = []"
    by (simp add: requests_of_def throttle_init_def)
  then have "window_count (requests_of (serve (throttle_init rpm t0) evs) (client_identity r)) now
           = window_count (recorded (throttle_init rpm t0) evs (client_identity r)) now"
    using serve_window [OF assms, of "throttle_init rpm t0" "client_identity r"]
    by (simp add: window_count_def)
  moreover have "requests_per_minute (serve (throttle_init rpm t0) evs) = rpm"
    by (simp add: throttle_init_def)
  ultimately show ?thesis
    by (simp add: dispatch_def is_rate_limited_def window_count_def Let_def requests_of_cleanup
        split: prod.splits)
qed

subsection \<open>What a client over the ceiling is answered\<close>

lemma after_ten_facts:
  "requests_of after_ten ''alice'' = [1, 2, 3, 4, 5, 6, 7, 8, 9, 10]"
  "requests_per_minute after_ten = 10"
  by (simp_all add: after_ten_def dispatch_def is_rate_limited_def throttle_init_def
      alice_def client_identity_def requests_of_def Let_def)

text \<open>
  C2 at a request over the ceiling: \<open>dispatch\<close> raises the \<open>HTTPException\<close> with status
  429 and the detail naming the ceiling, but what the client is answered is the 500
  \<open>Internal Server Error\<close> of the server-error layer: neither the status 429 nor the
  message reaches the client.
\<close>

theorem throttled_request_is_answered_500:
  assumes "requests_per_minute t \<le> int (window_count (requests_of t (client_identity r)) now)"
  shows "fst (dispatch t r now) =
           Inl (HTTPException 429 (rate_limit_detail (requests_per_minute t)))
       \<and> fst (app t r now) = Answer 500 ''Internal Server Error''"
  using assms
  by (simp add: app_def server_error_middleware_def dispatch_def is_rate_limited_def
      window_count_def Let_def requests_of_cleanup split: prod.splits)

theorem throttled_request_is_answered_500_witness:
  "requests_per_minute after_ten = 10
   \<and> window_count (requests_of after_ten (client_identity alice)) 11 = 10
   \<and> fst (dispatch after_ten alice 11) = Inl (HTTPException 429 (rate_limit_detail 10))
   \<and> fst (app after_ten alice 11) = Answer 500 ''Internal Server Error''"
  using throttled_request_is_answered_500 [of after_ten alice 11]
  by (simp add: after_ten_facts after_first_facts(3) window_count_def)

text \<open>A request under the ceiling is recorded and handed on.\<close>

lemma admitted_request_is_forwarded:
  assumes "\<not> requests_per_minute t \<le> int (window_count (requests_of t (client_identity r)) now)"
  shows "fst (app t r now) = Forwarded"
  using assms
  by (simp add: app_def server_error_middleware_def dispatch_def is_rate_limited_def
      window_count_def Let_def requests_of_cleanup split: prod.splits)
section \<open>The backend client\<close>

lemma request_loop_unrolled:
  "max_retries c = 3 \<Longrightarrow> request_loop c net m url ep d 0 le tr =
    (case attempt_result ep (net 0) of
       Inr r \<Rightarrow> (Inr r, tr @ [BackendAttempt m url d])
     | Inl e0 \<Rightarrow>
        (case attempt_result ep (net 1) of
           Inr r \<Rightarrow>
             (Inr r, tr @ [BackendAttempt m url d, Sleep (retry_delay c), BackendAttempt m url d])
         | Inl e1 \<Rightarrow>
            (case attempt_result ep (net 2) of
               Inr r \<Rightarrow>
                 (Inr r, tr @ [BackendAttempt m url d, Sleep (retry_delay c),
                               BackendAttempt m url d, Sleep (retry_delay c * 2),
                               BackendAttempt m url d])
             | Inl e2 \<Rightarrow>
                 (Inl (final_exception c url e2),
                  tr @ [BackendAttempt m url d, Sleep (retry_delay c),
                        BackendAttempt m url d, Sleep (retry_delay c * 2),
                        BackendAttempt m url d]))))"
  by (simp add: Let_def numeral_2_eq_2 split: sum.splits)

declare request_loop.simps [simp del]

lemma client_limits [simp]:
  "max_retries (http_client_init env) = 3" "retry_delay (http_client_init env) = 1"
  by (simp_all add: http_client_init_def)

lemma request_unrolled:
  "request (http_client_init env) net m ep d tr =
    (case attempt_result ep (net (base_url (http_client_init env) @ ep) 0) of
       Inr r \<Rightarrow> (Inr r, tr @ [BackendAttempt m (base_url (http_client_init env) @ ep) d])
     | Inl e0 \<Rightarrow>
        (case attempt_result ep (net (base_url (http_client_init env) @ ep) 1) of
           Inr r \<Rightarrow>
             (Inr r, tr @ [BackendAttempt m (base_url (http_client_init env) @ ep) d, Sleep 1,
                           BackendAttempt m (base_url (http_client_init env) @ ep) d])
         | Inl e1 \<Rightarrow>
            (case attempt_result ep (net (base_url (http_client_init env) @ ep) 2) of
               Inr r \<Rightarrow>
                 (Inr r, tr @ [BackendAttempt m (base_url (http_client_init env) @ ep) d, Sleep 1,
                               BackendAttempt m (base_url (http_client_init env) @ ep) d, Sleep 2,
                               BackendAttempt m (base_url (http_client_init env) @ ep) d])
             | Inl e2 \<Rightarrow>
                 (Inl (final_exception (http_client_init env)
                         (base_url (http_client_init env) @ ep) e2),
                  tr @ [BackendAttempt m (base_url (http_client_init env) @ ep) d, Sleep 1,
                        BackendAttempt m (base_url (http_client_init env) @ ep) d, Sleep 2,
                        BackendAttempt m (base_url (http_client_init env) @ ep) d]))))"
  by (simp add: request_def request_loop_unrolled Let_def split: sum.splits)

lemma local_base_url: "base_url (http_client_init Map.empty) = ''http://localhost:8000''"
  by (simp add: http_client_init_def getenv_def)

text \<open>
  C5 at the failing input: the backend answers 401 with the JSON body \<open>[]\<close>. Reading
  \<open>detail\<close> from the list raises \<open>AttributeError\<close> inside the attempt, the attempt is
  retried, and after three attempts and two sleeps the call raises.
\<close>

theorem verify_auth_401_array_body_raises:
  "verify_auth (http_client_init Map.empty) array_401 ''u1'' ''k1'' [] =
     (Inl (Exc Exception
             (PFmt [PStr ''Request failed after '', PInt 3, PStr '' attempts for '',
                    PStr auth_url, PStr '': '',
                    exc_str (attribute_error (PList []) ''get'')])),
      [auth_attempt, Sleep 1, auth_attempt, Sleep 2, auth_attempt])"
  by (simp add: verify_auth_def request_unrolled local_base_url auth_url_def auth_attempt_def
      array_401_def attempt_result_def classify_def response_data_of_def detail_or_error_def
      dict_get_def final_exception_def is_ClientError_def is_TimeoutError_def
      attribute_error_def)

text \<open>
  Where the body is a JSON object or is not JSON, and for every body under status 200 or
  404, one attempt classifies the response: the call returns after that attempt, without a
  sleep and without raising.
\<close>

lemma classify_total:
  "s = 200 \<or> s = 404 \<or> (\<exists>d. response_data_of b = PDict d) \<Longrightarrow>
   \<exists>r. classify ep s (response_data_of b) = Inr r"
  by (auto simp: classify_def detail_or_error_def dict_get_def)

lemma request_one_attempt:
  assumes "net (base_url (http_client_init env) @ ep) 0 = Response s b"
    and "s = 200 \<or> s = 404 \<or> (\<exists>d. response_data_of b = PDict d)"
  shows "\<exists>r. request (http_client_init env) net m ep d tr =
           (Inr r, tr @ [BackendAttempt m (base_url (http_client_init env) @ ep) d])"
proof -
  from classify_total [OF assms(2)] obtain r where "classify ep s (response_data_of b) = Inr r"
    by blast
  then show ?thesis
    by (simp add: request_unrolled assms(1) attempt_result_def)
qed

text \<open>
  C6 (amended). An attempt that raises any exception (a connection error, a timeout or
  any other) is retried unless it was the third: after the first failure the client
  sleeps 1, after the second 2. Two raising attempts followed by an answered one give
  the answer with exactly the delays 1 and 2; and the call raises only when all three
  attempts failed, after both delays.
\<close>

theorem request_retry_schedule:
  "(net (base_url (http_client_init env) @ ep) 0 = Raises e0
      \<and> net (base_url (http_client_init env) @ ep) 1 = Raises e1
      \<and> attempt_result ep (net (base_url (http_client_init env) @ ep) 2) = Inr r
    \<longrightarrow> fst (request (http_client_init env) net m ep d []) = Inr r
        \<and> sleeps (snd (request (http_client_init env) net m ep d [])) = [1, 2]
        \<and> attempts_made (snd (request (http_client_init env) net m ep d [])) = 3)
   \<and> (net (base_url (http_client_init env) @ ep) 0 = Raises e0
      \<and> attempt_result ep (net (base_url (http_client_init env) @ ep) 1) = Inr r
    \<longrightarrow> fst (request (http_client_init env) net m ep d []) = Inr r
        \<and> sleeps (snd (request (http_client_init env) net m ep d [])) = [1]
        \<and> attempts_made (snd (request (http_client_init env) net m ep d [])) = 2)
   \<and> (fst (request (http_client_init env) net m ep d []) = Inl x
    \<longrightarrow> (\<exists>e2. attempt_result ep (net (base_url (http_client_init env) @ ep) 2) = Inl e2
              \<and> x = final_exception (http_client_init env)
                      (base_url (http_client_init env) @ ep) e2)
        \<and> (\<exists>e. attempt_result ep (net (base_url (http_client_init env) @ ep) 0) = Inl e)
        \<and> (\<exists>e. attempt_result ep (net (base_url (http_client_init env) @ ep) 1) = Inl e)
        \<and> sleeps (snd (request (http_client_init env) net m ep d [])) = [1, 2]
        \<and> attempts_made (snd (request (http_client_init env) net m ep d [])) = 3)"
  by (auto simp: request_unrolled attempt_result_def split: sum.splits)

lemma ok_body_result: "attempt_result ep (Response 200 (JsonBody ok_body)) = Inr ok_body"
  by (simp add: attempt_result_def classify_def response_data_of_def)

theorem request_retry_schedule_witness:
  "fst (request (http_client_init Map.empty) third_time_lucky ''GET'' ''/x'' PNone []) = Inr ok_body
   \<and> sleeps (snd (request (http_client_init Map.empty) third_time_lucky ''GET'' ''/x'' PNone []))
       = [1, 2]
   \<and> fst (request (http_client_init Map.empty) second_time_lucky ''GET'' ''/x'' PNone [])
       = Inr ok_body
   \<and> sleeps (snd (request (http_client_init Map.empty) second_time_lucky ''GET'' ''/x'' PNone []))
       = [1]
   \<and> fst (request (http_client_init Map.empty) unreachable ''GET'' ''/x'' PNone []) =
       Inl (final_exception (http_client_init Map.empty) ''http://localhost:8000/x''
              connection_refused)
   \<and> attempts_made (snd (request (http_client_init Map.empty) unreachable ''GET'' ''/x'' PNone []))
       = 3"
proof -
  have u: "fst (request (http_client_init Map.empty) unreachable ''GET'' ''/x'' PNone []) =
       Inl (final_exception (http_client_init Map.empty) ''http://localhost:8000/x''
              connection_refused)"
    by (simp add: request_unrolled unreachable_def attempt_result_def local_base_url)
  show ?thesis
    using request_retry_schedule [of third_time_lucky Map.empty "''/x''" connection_refused
        connection_refused ok_body "''GET''" PNone]
      request_retry_schedule [of second_time_lucky Map.empty "''/x''"
        "Exc TimeoutError (PStr [])" _ ok_body "''GET''" PNone]
      request_retry_schedule [of unreachable Map.empty "''/x''" _ _ _ "''GET''" PNone
        "final_exception (http_client_init Map.empty) ''http://localhost:8000/x''
              connection_refused"]
      u
    by (simp add: third_time_lucky_def second_time_lucky_def ok_body_result)
qed

text \<open>
  C6 as stated fails: an attempt that raises \<open>RuntimeError\<close>, which is neither a
  connection error nor a timeout, is followed by a sleep and a second attempt.
\<close>

theorem retry_not_only_transport_counterexample:
  "\<not> is_ClientError session_closed \<and> \<not> is_TimeoutError session_closed
   \<and> runtime_error_once auth_url 0 = Raises session_closed
   \<and> verify_auth (http_client_init Map.empty) runtime_error_once ''u1'' ''k1'' [] =
       (Inr ok_body, [auth_attempt, Sleep 1, auth_attempt])"
  by (simp add: verify_auth_def request_unrolled local_base_url auth_url_def auth_attempt_def
      runtime_error_once_def session_closed_def is_ClientError_def is_TimeoutError_def
      attempt_result_def classify_def response_data_of_def)
lemma b64_table_all:
  "list_all (\<lambda>n. index_of b64_alphabet (b64_alphabet ! n) = Some n
          \<and> b64_alphabet ! n \<noteq> CHR ''=''
          \<and> (of_char (b64_alphabet ! n) :: nat) < 128) [0..<64]"
  by code_simp

lemma b64_table_nat:
  assumes "n < 64"
  shows "index_of b64_alphabet (b64_alphabet ! n) = Some n"
    and "b64_alphabet ! n \<noteq> CHR ''=''"
    and "(of_char (b64_alphabet ! n) :: nat) < 128"
  using b64_table_all assms by (auto simp: list_all_iff)

lemma sextet_roundtrip:
  fixes v :: byte
  assumes "v < 64"
  shows "table_a2b_base64 (table_b2a_base64 v) = Some v"
    and "table_b2a_base64 v \<noteq> CHR ''=''"
    and "(of_char (table_b2a_base64 v) :: nat) < 128"
proof -
  have "unat v < 64" using assms by (simp add: word_less_nat_alt)
  then show "table_a2b_base64 (table_b2a_base64 v) = Some v"
    and "table_b2a_base64 v \<noteq> CHR ''=''"
    and "(of_char (table_b2a_base64 v) :: nat) < 128"
    by (simp_all add: table_a2b_base64_def table_b2a_base64_def b64_table_nat)
qed

lemma byte_eqI:
  fixes a b :: byte
  assumes "bit a 0 = bit b 0" "bit a 1 = bit b 1" "bit a 2 = bit b 2" "bit a 3 = bit b 3"
    "bit a 4 = bit b 4" "bit a 5 = bit b 5" "bit a 6 = bit b 6" "bit a 7 = bit b 7"
  shows "a = b"
proof (rule bit_word_eqI)
  fix n assume "n < LENGTH(8)"
  then have "n \<in> {0, 1, 2, 3, 4, 5, 6, 7}"
    by auto
  then show "bit a n = bit b n" using assms by auto
qed

lemma lt64I:
  fixes x :: byte
  assumes "x AND mask 6 = x"
  shows "x < 64"
  using and_mask_less' [of 6 x] assms by simp

lemma byte_masks: "(3 :: byte) = mask 2" "(15 :: byte) = mask 4" "(63 :: byte) = mask 6"
  by (simp_all add: mask_eq_exp_minus_1)

lemma enc_bounds: "enc0 a < 64" "enc1 a b < 64" "enc2 b c < 64" "enc3 c < 64"
  unfolding enc0_def enc1_def enc2_def enc3_def byte_masks
  by (rule lt64I, rule byte_eqI; simp add: bit_simps impossible_bit)+

lemma enc_rebuild:
  "push_bit 2 (enc0 a) OR drop_bit 4 (enc1 a b) = a"
  "push_bit 4 (enc1 a b AND 0x0f) OR drop_bit 2 (enc2 b c) = b"
  "push_bit 6 (enc2 b c AND 0x03) OR enc3 c = c"
  unfolding enc0_def enc1_def enc2_def enc3_def byte_masks
  by (rule byte_eqI; simp add: bit_simps impossible_bit)+

lemma a2b_loop_sextet:
  fixes v :: byte
  assumes "v < 64"
  shows "a2b_loop (table_b2a_base64 v # rest) q l p out =
           (if q = 0 then a2b_loop rest 1 v 0 out
            else if q = 1 then a2b_loop rest 2 (v AND 0x0f) 0 (out @ [push_bit 2 l OR drop_bit 4 v])
            else if q = 2 then a2b_loop rest 3 (v AND 0x03) 0 (out @ [push_bit 4 l OR drop_bit 2 v])
            else a2b_loop rest 0 0 0 (out @ [push_bit 6 l OR v]))"
  using sextet_roundtrip [OF assms] by simp

lemma a2b_loop_pad:
  "a2b_loop (CHR ''='' # rest) q l p out =
     (if q \<ge> 2 \<and> q + (p + 1) \<ge> 4 then Inr out
      else a2b_loop rest q l (if q \<ge> 2 then p + 1 else p) out)"
  by simp

lemma a2b_loop_b64encode:
  "a2b_loop (b64encode bs) 0 l p out = Inr (out @ bs)"
proof (induction bs arbitrary: l p out rule: b64encode.induct)
  case 1
  show ?case by simp
next
  case (2 a)
  show ?case
    using enc_rebuild(1) [of a 0]
    by (simp add: a2b_loop_sextet a2b_loop_pad enc_bounds del: a2b_loop.simps(2))
next
  case (3 a b)
  show ?case
    using enc_rebuild(1) [of a b] enc_rebuild(2) [of a b 0]
    by (simp add: a2b_loop_sextet a2b_loop_pad enc_bounds del: a2b_loop.simps(2))
next
  case (4 a b c rest)
  show ?case
    using enc_rebuild(1) [of a b] enc_rebuild(2) [of a b c] enc_rebuild(3) [of b c]
    by (simp add: a2b_loop_sextet enc_bounds "4.IH" del: a2b_loop.simps(2))
qed

lemma b64encode_ascii: "\<not> list_ex (\<lambda>ch. (of_char ch :: nat) \<ge> 128) (b64encode bs)"
  by (induction bs rule: b64encode.induct)
     (simp_all add: sextet_roundtrip enc_bounds not_le)

lemma b64decode_b64encode: "b64decode (b64encode bs) = Inr bs"
  by (simp add: b64decode_def b64encode_ascii a2b_loop_b64encode)
section \<open>Materializing a result locator\<close>

lemma data_url_split:
  "startswith (data_url s) ''data:image''"
  "CHR '','' \<in> set (data_url s)"
  "tl (dropWhile (\<lambda>ch. ch \<noteq> CHR '','') (data_url s)) = s"
  by (simp_all add: data_url_def startswith_def)

lemma save_image_inline:
  assumes "fs_fault w ''media'' = None" "fs_fault w (path_join ''media'' filename) = None"
  shows "save_image w st (data_url (b64encode bs)) filename =
           (Inr (path_join ''media'' filename),
            st\<lparr>files := (files st)(path_join ''media'' filename \<mapsto> bs)\<rparr>)"
  by (simp add: save_image_def assms data_url_split b64decode_b64encode write_file_def Let_def)

lemma save_image_remote:
  assumes "fs_fault w ''media'' = None" "fs_fault w (path_join ''media'' filename) = None"
    and "\<not> startswith url ''data:image''" "http_get w url = Inr (200, bs)"
  shows "save_image w st url filename =
           (Inr (path_join ''media'' filename),
            st\<lparr>trace := trace st @ [HttpGet url],
               files := (files st)(path_join ''media'' filename \<mapsto> bs)\<rparr>)"
  by (simp add: save_image_def assms download_image_def write_file_def Let_def)

text \<open>
  C9. For every byte sequence \<open>bs\<close>: saving the inline locator that encodes \<open>bs\<close> in
  base64 and saving a remote URL whose fetch answers 200 with \<open>bs\<close> both succeed (given
  that the media directory and the file can be written), return the same path, and leave
  exactly \<open>bs\<close> as the content of the file at that path.
\<close>

theorem materialize_roundtrip:
  assumes "fs_fault w ''media'' = None" "fs_fault w (path_join ''media'' filename) = None"
    and "\<not> startswith url ''data:image''" "http_get w url = Inr (200, bs)"
  shows "fst (save_image w st (data_url (b64encode bs)) filename) = Inr (path_join ''media'' filename)
       \<and> fst (save_image w st url filename) = Inr (path_join ''media'' filename)
       \<and> files (snd (save_image w st (data_url (b64encode bs)) filename))
            (path_join ''media'' filename) = Some bs
       \<and> files (snd (save_image w st url filename)) (path_join ''media'' filename) = Some bs"
  by (simp add: save_image_inline [OF assms(1,2)] save_image_remote [OF assms])

theorem materialize_roundtrip_witness:
  "fst (save_image quiet fresh (data_url (b64encode png)) ''a.png'') = Inr ''media/a.png''
   \<and> fst (save_image quiet fresh ''https://cdn.example/out.png'' ''a.png'') = Inr ''media/a.png''
   \<and> files (snd (save_image quiet fresh (data_url (b64encode png)) ''a.png'')) ''media/a.png''
        = Some png
   \<and> files (snd (save_image quiet fresh ''https://cdn.example/out.png'' ''a.png''))
        ''media/a.png'' = Some png"
proof -
  have p: "path_join ''media'' ''a.png'' = ''media/a.png''"
    by (simp add: path_join_def startswith_def)
  show ?thesis
    using materialize_roundtrip [of quiet "''a.png''" "''https://cdn.example/out.png''" png fresh]
    by (simp add: p quiet_def startswith_def)
qed
section \<open>The pipeline\<close>

declare digits.simps [simp del]

lemma bind_Inl: "m st = (Inl r, st') \<Longrightarrow> bind m k st = (Inl r, st')"
  by (simp add: bind_def)

lemma bind_Inr: "m st = (Inr x, st') \<Longrightarrow> bind m k st = k x st'"
  by (simp add: bind_def)

lemma written_Nil [simp]: "written w [] = []"
  by (simp add: written_def)


lemma fail_with_eq:
  assumes "truthy msg"
  shows "fail_with w f start provider msg code det st =
           (Inl (Http (HTTPException code det)),
            st\<lparr>audit := audit st
                      @ written w [error_entry f ((clock w (ticks st) - start) * 1000) provider msg],
               ticks := Suc (ticks st)\<rparr>)"
  using assms
  by (simp add: fail_with_def time_time_def log_request_def error_entry_def written_def Let_def)

lemma prefixed_truthy [simp]: "s \<noteq> [] \<Longrightarrow> truthy (PFmt (PStr s # vs))"
  by simp

lemma create_image_eq:
  "create_image w f st0 =
     (case try_block w f (start_of w st0) (provider_name_of w) (started st0) of
        (Inr response, st) \<Rightarrow> (Inr response, st)
      | (Inl (Http h), st) \<Rightarrow> (Inl h, st)
      | (Inl (Other e), st) \<Rightarrow>
          (Inl (HTTPException 500 (PFmt [PStr ''Internal server error: '', exc_str e])),
           st\<lparr>audit := audit st @
                  written w
                    [error_entry f ((clock w (ticks st) - start_of w st0) * 1000)
                       (provider_name_of w)
                       (PFmt [PStr ''Unexpected error ('', PStr (class_name (exc_class e)),
                              PStr ''): '', exc_str e])],
              ticks := Suc (ticks st)\<rparr>))"
  by (simp add: create_image_def time_time_def start_of_def started_def provider_name_of_def
      log_request_def error_entry_def written_def Let_def
      split: prod.splits sum.splits raised.splits)

lemma create_image_Http:
  "try_block w f (start_of w st0) (provider_name_of w) (started st0) = (Inl (Http h), st)
   \<Longrightarrow> create_image w f st0 = (Inl h, st)"
  by (simp add: create_image_eq)

lemma create_image_Inr:
  "try_block w f (start_of w st0) (provider_name_of w) (started st0) = (Inr r, st)
   \<Longrightarrow> create_image w f st0 = (Inr r, st)"
  by (simp add: create_image_eq)

text \<open>
  C1 at the failing input: a request with neither \<open>user_image\<close> nor \<open>user_image_url\<close>
  gets 400 and the audit log is left as it was: no record is written.
\<close>

theorem missing_input_writes_no_audit_record:
  "fst (create_image w (f\<lparr>user_image := None, user_image_url := None\<rparr>) st0) =
     Inl (HTTPException 400 (PStr ''Either user_image file or user_image_url must be provided''))
   \<and> audit (snd (create_image w (f\<lparr>user_image := None, user_image_url := None\<rparr>) st0))
       = audit st0"
proof -
  have "resolve_inputs w (f\<lparr>user_image := None, user_image_url := None\<rparr>) (started st0) =
          (Inl (Http (HTTPException 400
             (PStr ''Either user_image file or user_image_url must be provided''))), started st0)"
    by (simp add: resolve_inputs_def resolve_image_def bind_def)
  then have "try_block w (f\<lparr>user_image := None, user_image_url := None\<rparr>) (start_of w st0)
               (provider_name_of w) (started st0) =
          (Inl (Http (HTTPException 400
             (PStr ''Either user_image file or user_image_url must be provided''))), started st0)"
    by (simp add: try_block_def run_to_persist_def run_to_generate_def run_to_credits_def
        run_to_auth_def bind_Inl)
  then show ?thesis
    by (simp add: create_image_Http started_def)
qed
subsection \<open>What each stage writes to the audit log\<close>

lemma well_logged_fail_with:
  assumes "truthy msg" "code \<noteq> 400" "audit st = audit st'"
  shows "well_logged w st' (fail_with w f start provider msg code det st)"
proof -
  let ?en = "error_entry f ((clock w (ticks st) - start) * 1000) provider msg"
  have "audit (snd (fail_with w f start provider msg code det st)) = audit st' @ written w [?en]
        \<and> log_status ?en = ''error'' \<and> log_level ?en = ERROR \<and> log_error ?en \<noteq> None"
    using assms by (simp add: fail_with_eq error_entry_def)
  then have "\<exists>en. audit (snd (fail_with w f start provider msg code det st))
                    = audit st' @ written w [en]
                \<and> log_status en = ''error'' \<and> log_level en = ERROR \<and> log_error en \<noteq> None"
    by blast
  then show ?thesis
    using assms by (simp add: well_logged_def fail_with_eq)
qed

lemma well_logged_bind:
  assumes "well_logged w st (m st)"
    and "\<And>x st1. m st = (Inr x, st1) \<Longrightarrow> well_logged w st1 (k x st1)"
  shows "well_logged w st (bind m k st)"
proof (cases "m st")
  case (Pair r st1)
  show ?thesis
  proof (cases r)
    case (Inl a)
    with Pair assms(1) show ?thesis
      by (auto simp: bind_def well_logged_def split: raised.splits)
  next
    case (Inr x)
    with Pair assms(1) have "audit st1 = audit st" by (simp add: well_logged_def)
    moreover from Pair Inr assms(2) have "well_logged w st1 (k x st1)" by simp
    ultimately show ?thesis using Pair Inr
      by (auto simp: bind_def well_logged_def split: sum.splits raised.splits)
  qed
qed

lemma audit_download_image [simp]: "audit (snd (download_image w st url)) = audit st"
  by (simp add: download_image_def Let_def split: sum.splits prod.splits)

lemma audit_get_image_data [simp]: "audit (snd (get_image_data w st s)) = audit st"
  by (simp add: get_image_data_def split: source.splits)

lemma audit_resolve_image [simp]: "audit (snd (resolve_image w up url msg st)) = audit st"
proof -
  have g: "\<And>u r s1. get_image_data w st u = (r, s1) \<Longrightarrow> audit s1 = audit st"
    using audit_get_image_data by (metis snd_conv)
  show ?thesis
    by (auto simp: resolve_image_def split: option.splits sum.splits prod.splits dest!: g)
qed

lemma resolve_image_Http:
  "fst (resolve_image w up url msg st) = Inl (Http h) \<Longrightarrow> status_code h = 400"
  by (auto simp: resolve_image_def split: option.splits sum.splits prod.splits if_splits)

lemma well_logged_resolve_image: "well_logged w st (resolve_image w up url msg st)"
  using resolve_image_Http [of w up url msg st]
  by (auto simp: well_logged_def split: sum.splits raised.splits)

lemma well_logged_resolve_inputs: "well_logged w st (resolve_inputs w f st)"
  unfolding resolve_inputs_def
  by (intro well_logged_bind well_logged_resolve_image) (simp add: well_logged_def)

lemma well_logged_auth_stage: "well_logged w st (auth_stage w f start provider st)"
  by (auto simp: auth_stage_def Let_def well_logged_fail_with
      split: prod.splits sum.splits pyval.splits)
     (simp_all add: well_logged_def)

lemma well_logged_credits_stage: "well_logged w st (credits_stage w f start provider st)"
  by (auto simp: credits_stage_def Let_def well_logged_fail_with
      split: prod.splits sum.splits pyval.splits)
     (simp_all add: well_logged_def)

lemma audit_provider_attempt [simp]: "audit (snd (provider_attempt w st)) = audit st"
  by (simp add: provider_attempt_def split: option.splits sum.splits)

lemma well_logged_generate_stage: "well_logged w st (generate_stage w f start provider st)"
proof (cases "provider_attempt w st")
  case (Pair r st1)
  then have "audit st1 = audit st" using audit_provider_attempt [of w st] by simp
  then show ?thesis using Pair
    by (auto simp: generate_stage_def well_logged_fail_with split: sum.splits)
       (simp add: well_logged_def)
qed

lemma audit_write_file [simp]: "audit (snd (write_file w st p d)) = audit st"
  by (simp add: write_file_def split: option.splits)

lemma audit_save_image [simp]: "audit (snd (save_image w st loc fn)) = audit st"
proof -
  have d: "\<And>st1 r. download_image w st loc = (r, st1) \<Longrightarrow> audit st1 = audit st"
    using audit_download_image [of w st loc] by simp
  have wf: "\<And>s p dat r s1. write_file w s p dat = (r, s1) \<Longrightarrow> audit s1 = audit s"
    using audit_write_file by (metis snd_conv)
  show ?thesis
    by (auto simp: save_image_def Let_def split: option.splits sum.splits prod.splits
        dest!: d wf)
qed

lemma well_logged_persist_stage: "well_logged w st (persist_stage w f start provider url st)"
proof (cases "save_image w (st\<lparr>ticks := Suc (ticks st)\<rparr>) url (filename_of f (clock w (ticks st)))")
  case (Pair r st2)
  then have "audit st2 = audit st"
    using audit_save_image [of w "st\<lparr>ticks := Suc (ticks st)\<rparr>" url
        "filename_of f (clock w (ticks st))"] by simp
  then show ?thesis using Pair
    by (auto simp: persist_stage_def time_time_def well_logged_fail_with split: sum.splits)
       (simp add: well_logged_def)
qed

lemma well_logged_run_to_persist:
  "well_logged w st (run_to_persist w f start provider st)"
  unfolding run_to_persist_def run_to_generate_def run_to_credits_def run_to_auth_def
  by (intro well_logged_bind well_logged_resolve_inputs well_logged_auth_stage
      well_logged_credits_stage well_logged_generate_stage well_logged_persist_stage)
subsection \<open>The end of the pipeline\<close>

lemma bind_Inr_elim:
  assumes "bind m k st = (Inr y, st')"
  obtains x st1 where "m st = (Inr x, st1)" "k x st1 = (Inr y, st')"
  using assms by (auto simp: bind_def split: prod.splits sum.splits)

lemma notify_respond_eq:
  "notify_respond w f start provider img st =
     (Inr \<lparr>status = ''success'', image_url = Some img,
           latency_ms = (clock w (ticks st) - start) * 1000\<rparr>,
      (case send_webhook (http_client_init (environ w)) (backend w) (user_id f) 1 (catalog_id f)
              img ((clock w (ticks st) - start) * 1000) (trace st) of
         (Inl e, tr) \<Rightarrow>
           st\<lparr>audit := audit st @
                  written w
                    [warning_entry f ((clock w (ticks st) - start) * 1000) provider
                       (PFmt [PStr ''Webhook failed: '', exc_str e]),
                     success_entry f ((clock w (ticks st) - start) * 1000) provider],
              trace := tr, ticks := Suc (ticks st)\<rparr>
       | (Inr ack, tr) \<Rightarrow>
           st\<lparr>audit := audit st @
                  written w [success_entry f ((clock w (ticks st) - start) * 1000) provider],
              trace := tr, ticks := Suc (ticks st)\<rparr>))"
  by (simp add: notify_respond_def time_time_def log_request_def warning_entry_def
      success_entry_def written_def Let_def split: prod.splits sum.splits)

lemma run_to_persist_Inr:
  assumes "run_to_persist w f start provider st = (Inr img, st5)"
  shows "audit st5 = audit st" and "img \<noteq> []"
proof -
  from well_logged_run_to_persist [of w st f start provider] assms
  show "audit st5 = audit st" by (simp add: well_logged_def)
  from assms obtain url st4 where "persist_stage w f start provider url st4 = (Inr img, st5)"
    unfolding run_to_persist_def by (rule bind_Inr_elim)
  then show "img \<noteq> []"
    by (auto simp: persist_stage_def time_time_def fail_with_def Let_def
        split: prod.splits sum.splits if_splits)
qed


text \<open>
  Whatever the level of the logger, a failed webhook leaves the response a success, and
  the two records handed to the logger are the \<open>warning\<close> record, at level \<open>ERROR\<close>, and
  the \<open>success\<close> record, at level \<open>INFO\<close>; the audit log gains those of them the logger
  emits.
\<close>

lemma webhook_failure_at_any_level:
  assumes "run_to_persist w f (start_of w st0) (provider_name_of w) (started st0) = (Inr img, st5)"
    and "send_webhook (http_client_init (environ w)) (backend w) (user_id f) 1 (catalog_id f) img
           ((clock w (ticks st5) - start_of w st0) * 1000) (trace st5) = (Inl e, tr)"
  shows "fst (create_image w f st0) =
           Inr \<lparr>status = ''success'', image_url = Some img,
                latency_ms = (clock w (ticks st5) - start_of w st0) * 1000\<rparr>
       \<and> audit (snd (create_image w f st0)) =
           audit st0 @
           written w
             [warning_entry f ((clock w (ticks st5) - start_of w st0) * 1000) (provider_name_of w)
                (PFmt [PStr ''Webhook failed: '', exc_str e]),
              success_entry f ((clock w (ticks st5) - start_of w st0) * 1000) (provider_name_of w)]"
proof -
  have a: "audit st5 = audit st0"
    using run_to_persist_Inr(1) [OF assms(1)] by (simp add: started_def)
  have "try_block w f (start_of w st0) (provider_name_of w) (started st0) =
          notify_respond w f (start_of w st0) (provider_name_of w) img st5"
    using assms(1) by (simp add: try_block_def bind_def)
  then show ?thesis
    by (simp add: create_image_eq notify_respond_eq assms(2) a del: left_diff_distrib_numeral)
qed

text \<open>
  Every path of \<open>create_image\<close> hands records to the logger, and the audit log gains
  those the logger emits; among the records handed over, those other than webhook
  warnings number exactly one, except on the 400 of a missing input, where nothing is
  handed over.
\<close>

theorem create_image_primary_records:
  "\<exists>es. audit (snd (create_image w f st0)) = audit st0 @ written w es
      \<and> length (primary es) =
          (case fst (create_image w f st0) of
             Inl h \<Rightarrow> (if status_code h = 400 then 0 else 1)
           | Inr r \<Rightarrow> 1)"
proof (cases "run_to_persist w f (start_of w st0) (provider_name_of w) (started st0)")
  case (Pair r st)
  note wl = well_logged_run_to_persist [of w "started st0" f "start_of w st0" "provider_name_of w"]
  show ?thesis
  proof (cases r)
    case (Inr img)
    with Pair have rp: "run_to_persist w f (start_of w st0) (provider_name_of w) (started st0)
                          = (Inr img, st)" by simp
    have a: "audit st = audit st0"
      using run_to_persist_Inr(1) [OF rp] by (simp add: started_def)
    have tb: "try_block w f (start_of w st0) (provider_name_of w) (started st0) =
            notify_respond w f (start_of w st0) (provider_name_of w) img st"
      using rp by (simp add: try_block_def bind_def)
    let ?lat = "(clock w (ticks st) - start_of w st0) * 1000"
    obtain o' tr where sw:
      "send_webhook (http_client_init (environ w)) (backend w) (user_id f) 1 (catalog_id f)
         img ?lat (trace st) = (o', tr)" by (cases "send_webhook (http_client_init (environ w))
         (backend w) (user_id f) 1 (catalog_id f) img ?lat (trace st)")
    show ?thesis
    proof (cases o')
      case (Inl e)
      let ?es = "[warning_entry f ?lat (provider_name_of w)
                    (PFmt [PStr ''Webhook failed: '', exc_str e]),
                  success_entry f ?lat (provider_name_of w)]"
      have "audit (snd (create_image w f st0)) = audit st0 @ written w ?es"
        using sw Inl by (simp add: create_image_eq tb notify_respond_eq a
            del: left_diff_distrib_numeral)
      moreover have "length (primary ?es) = 1"
        by (simp add: primary_def warning_entry_def success_entry_def)
      moreover have "fst (create_image w f st0) =
          Inr \<lparr>status = ''success'', image_url = Some img, latency_ms = ?lat\<rparr>"
        by (simp add: create_image_eq tb notify_respond_eq del: left_diff_distrib_numeral)
      ultimately show ?thesis by (intro exI [of _ ?es]) simp
    next
      case (Inr ack)
      let ?es = "[success_entry f ?lat (provider_name_of w)]"
      have "audit (snd (create_image w f st0)) = audit st0 @ written w ?es"
        using sw Inr by (simp add: create_image_eq tb notify_respond_eq a
            del: left_diff_distrib_numeral)
      moreover have "length (primary ?es) = 1"
        by (simp add: primary_def success_entry_def)
      moreover have "fst (create_image w f st0) =
          Inr \<lparr>status = ''success'', image_url = Some img, latency_ms = ?lat\<rparr>"
        by (simp add: create_image_eq tb notify_respond_eq del: left_diff_distrib_numeral)
      ultimately show ?thesis by (intro exI [of _ ?es]) simp
    qed
  next
    case (Inl x)
    with Pair have rp: "run_to_persist w f (start_of w st0) (provider_name_of w) (started st0)
                          = (Inl x, st)" by simp
    then have tb: "try_block w f (start_of w st0) (provider_name_of w) (started st0) = (Inl x, st)"
      by (simp add: try_block_def bind_Inl)
    show ?thesis
    proof (cases x)
      case (Http h)
      then have c: "create_image w f st0 = (Inl h, st)"
        using tb by (simp add: create_image_eq)
      show ?thesis
      proof (cases "status_code h = 400")
        case True
        then have "audit st = audit st0 @ written w []"
          using wl rp Http by (simp add: well_logged_def started_def)
        moreover have "length (primary []) = 0" by (simp add: primary_def)
        ultimately show ?thesis using c True by (intro exI [of _ "[]"]) simp
      next
        case False
        then obtain en where "audit st = audit st0 @ written w [en]" "log_status en = ''error''"
          using wl rp Http by (auto simp: well_logged_def started_def)
        moreover from this have "length (primary [en]) = 1" by (simp add: primary_def)
        ultimately show ?thesis using c False by (intro exI [of _ "[en]"]) simp
      qed
    next
      case (Other e)
      let ?es = "[error_entry f ((clock w (ticks st) - start_of w st0) * 1000)
                    (provider_name_of w)
                    (PFmt [PStr ''Unexpected error ('', PStr (class_name (exc_class e)),
                           PStr ''): '', exc_str e])]"
      have a: "audit st = audit st0"
        using wl rp Other by (simp add: well_logged_def started_def)
      have "audit (snd (create_image w f st0)) = audit st0 @ written w ?es"
        using tb Other by (simp add: create_image_eq a del: left_diff_distrib_numeral)
      moreover have "length (primary ?es) = 1"
        by (simp add: primary_def error_entry_def)
      moreover have "fst (create_image w f st0) =
          Inl (HTTPException 500 (PFmt [PStr ''Internal server error: '', exc_str e]))"
        using tb Other by (simp add: create_image_eq)
      ultimately show ?thesis by (intro exI [of _ ?es]) simp
    qed
  qed
qed
subsection \<open>Runs in concrete worlds\<close>

lemma str_int_101: "str_int 101 = ''101''"
  by code_simp

lemma py_int_101: "py_int 101 = 101"
  by (simp add: py_int_def)

lemma quote_plus_u1: "quote_plus ''u1'' = ''u1''"
  by (simp add: quote_plus_def quote_plus_char_def)

lemma base_url_init:
  "base_url (http_client_init env) = getenv env ''BACKEND_URL'' ''http://localhost:8000''"
  by (simp add: http_client_init_def)

lemmas eval_defs =
  resolve_inputs_def resolve_image_def bind_def auth_stage_def credits_stage_def
  generate_stage_def provider_attempt_def persist_stage_def notify_respond_def
  run_to_auth_def run_to_credits_def run_to_generate_def run_to_persist_def try_block_def
  create_image_def
  verify_auth_def check_credits_def send_webhook_def request_unrolled attempt_result_def
  classify_def response_data_of_def detail_or_error_def dict_get_def item_def
  get_ai_provider_def providers_def construct_def generate_image_def openai_generate_image_def
  provider_label_def getenv_def lower_def lower_char_def
  save_image_def download_image_def get_image_data_def write_file_def path_join_def
  startswith_def is_enabled_for_def get_effective_level_def levelno_def
  filename_of_def time_time_def start_of_def started_def provider_name_of_def
  base_url_init fail_with_def log_request_def Let_def py_or_def
  is_ValueError_def is_ClientError_def is_TimeoutError_def is_OpenAIError_def
  final_exception_def quote_plus_u1 str_int_101 py_int_101
  quiet_def fresh_def url_form_def input_fetches_def generated_url_def
  auth_url_def credits_url_def webhook_url_def
  auth_attempt_def credits_attempt_def webhook_attempt_def connection_refused_def

text \<open>
  A request that uploads an image never gets past input resolution: \<open>get_image_data\<close>
  raises on the upload object, and the request ends with the 500 of the outer handler
  before any backend call.
\<close>

lemma upload_ends_in_500:
  assumes "user_image f = Some r"
  shows "fst (create_image w f st0) =
           Inl (HTTPException 500
                  (PFmt [PStr ''Internal server error: '',
                         PFmt [PStr ''Unsupported image source type: '',
                               PStr (type_repr Starlette_UploadFile)]]))
       \<and> trace (snd (create_image w f st0)) = trace st0"
  using assms
  by (simp add: create_image_def try_block_def run_to_persist_def run_to_generate_def
      run_to_credits_def run_to_auth_def resolve_inputs_def resolve_image_def bind_def
      get_image_data_def time_time_def log_request_def Let_def)

text \<open>
  C4 at the failing input: a request naming its images by URL, while the auth endpoint
  answers HTTP 500. The decision is neither 401 nor \<open>Unauthorized\<close>, so the request goes
  on to the credits check, the provider and the webhook, and is answered with \<open>success\<close>.
\<close>

theorem auth_500_is_treated_as_authorized:
  "fst (create_image auth_down url_form fresh) =
     Inr \<lparr>status = ''success'', image_url = Some ''/media/u1_c9_101.png'', latency_ms = 2000\<rparr>
   \<and> trace (snd (create_image auth_down url_form fresh)) =
       input_fetches @
       [auth_attempt, credits_attempt, GenerateCall ''OpenAIProvider'',
        HttpGet ''https://cdn.example/out.png'',
        webhook_attempt ''/media/u1_c9_101.png'' 2000]
   \<and> attempt_result ''/api/v1/auth/verify/'' (backend auth_down auth_url 0) =
       Inr (PDict [(''error'', PStr ''Backend Server Error''),
                   (''detail'', PStr ''database unavailable''),
                   (''status'', PInt 500),
                   (''message'', PFmt [PStr ''Backend server error: '',
                                       PStr ''database unavailable''])])"
  by (simp add: eval_defs auth_down_def)

text \<open>
  Any answer of the auth endpoint with a JSON object and a status other than 200 and 401
  is classified into a dictionary that the authentication step lets pass.
\<close>

lemma auth_stage_passes_classified_errors:
  assumes "backend w (base_url (http_client_init (environ w)) @ ''/api/v1/auth/verify/'') 0
             = Response s (JsonBody (PDict d))"
    and "s \<noteq> 200" "s \<noteq> 401"
  shows "auth_stage w f start provider st =
           (Inr (),
            st\<lparr>trace := trace st @
                   [BackendAttempt ''POST''
                      (base_url (http_client_init (environ w)) @ ''/api/v1/auth/verify/'')
                      (PDict [(''user_id'', PStr (user_id f)),
                              (''api_key'', PStr (api_key f))])]\<rparr>)"
  using assms
  by (simp add: auth_stage_def verify_auth_def request_unrolled attempt_result_def
      classify_def response_data_of_def detail_or_error_def dict_get_def item_def)

text \<open>The request that uploads both images, in the quiet world.\<close>

lemma upload_form_ends_in_500:
  "fst (create_image quiet upload_form fresh) =
     Inl (HTTPException 500
            (PFmt [PStr ''Internal server error: '',
                   PFmt [PStr ''Unsupported image source type: '',
                         PStr (type_repr Starlette_UploadFile)]]))
   \<and> trace (snd (create_image quiet upload_form fresh)) = []
   \<and> map log_status (audit (snd (create_image quiet upload_form fresh))) = [''error'']"
  by (simp add: eval_defs upload_form_def resolve_inputs_def)
subsection \<open>Credits\<close>

lemma check_credits_200:
  "backend w (base_url (http_client_init (environ w))
              @ ''/api/v1/credits/check/?user_id='' @ quote_plus uid) 0 = Response 200 b
   \<Longrightarrow> check_credits (http_client_init (environ w)) (backend w) uid tr =
         (Inr (response_data_of b),
          tr @ [BackendAttempt ''GET''
                  (base_url (http_client_init (environ w))
                   @ ''/api/v1/credits/check/?user_id='' @ quote_plus uid) PNone])"
  by (simp add: check_credits_def request_unrolled attempt_result_def classify_def)









text \<open>
  A 200 answer of the credits endpoint whose body is JSON but not an object (a list, a
  string, \<open>null\<close>) is returned as it is; reading \<open>status\<close> from it raises
  \<open>AttributeError\<close> outside the handler of the stage, and the request ends with the 500
  of the outer handler, not with a 403.
\<close>

lemma credits_non_object_body_ends_in_500:
  assumes "run_to_auth w f (start_of w st0) (provider_name_of w) (started st0) = (Inr (), st3)"
    and "backend w (base_url (http_client_init (environ w))
                    @ ''/api/v1/credits/check/?user_id='' @ quote_plus (user_id f)) 0
           = Response 200 (JsonBody v)"
    and "\<forall>d. v \<noteq> PDict d"
  shows "fst (create_image w f st0) =
           Inl (HTTPException 500
                  (PFmt [PStr ''Internal server error: '', exc_str (attribute_error v ''get'')]))"
proof -
  have "credits_stage w f (start_of w st0) (provider_name_of w) st3 =
          (Inl (Other (attribute_error v ''get'')),
           st3\<lparr>trace := trace st3 @
                  [BackendAttempt ''GET''
                     (base_url (http_client_init (environ w))
                      @ ''/api/v1/credits/check/?user_id='' @ quote_plus (user_id f)) PNone]\<rparr>)"
    using check_credits_200 [OF assms(2), of "trace st3"] assms(3)
    by (cases v) (simp_all add: credits_stage_def response_data_of_def)
  then have "try_block w f (start_of w st0) (provider_name_of w) (started st0) =
          (Inl (Other (attribute_error v ''get'')),
           st3\<lparr>trace := trace st3 @
                  [BackendAttempt ''GET''
                     (base_url (http_client_init (environ w))
                      @ ''/api/v1/credits/check/?user_id='' @ quote_plus (user_id f)) PNone]\<rparr>)"
    using assms(1)
    by (simp add: try_block_def run_to_persist_def run_to_generate_def run_to_credits_def
        bind_def)
  then show ?thesis by (simp add: create_image_eq)
qed
subsection \<open>Webhook failure in a concrete world\<close>




text \<open>
  With \<open>LOG_LEVEL=WARNING\<close> the same request is answered the same, and the audit log
  gains the \<open>warning\<close> record only: the \<open>success\<close> record, logged at \<open>INFO\<close>, is not
  emitted.
\<close>

lemma webhook_failure_at_warning_level:
  "inference_logger_init (environ webhook_down_warning_level)
     = Some (logger_level webhook_down_warning_level)
   \<and> fst (create_image webhook_down_warning_level url_form fresh) =
     Inr \<lparr>status = ''success'', image_url = Some ''/media/u1_c9_101.png'', latency_ms = 2000\<rparr>
   \<and> map log_status (audit (snd (create_image webhook_down_warning_level url_form fresh))) =
       [''warning'']"
  by (simp add: eval_defs webhook_down_warning_level_def webhook_down_def
      inference_logger_init_def level_names_def)

subsection \<open>Persisting\<close>

lemma run_to_generate_audit:
  assumes "run_to_generate w f start provider st = (Inr url, st4)"
  shows "audit st4 = audit st"
proof -
  have "well_logged w st (run_to_generate w f start provider st)"
    unfolding run_to_generate_def run_to_credits_def run_to_auth_def
    by (intro well_logged_bind well_logged_resolve_inputs well_logged_auth_stage
        well_logged_credits_stage well_logged_generate_stage)
  then show ?thesis using assms by (simp add: well_logged_def)
qed

lemma persist_failure:
  assumes "run_to_generate w f (start_of w st0) (provider_name_of w) (started st0) = (Inr url, st4)"
    and "save_image w (st4\<lparr>ticks := Suc (ticks st4)\<rparr>) url (filename_of f (clock w (ticks st4)))
           = (Inl e, st5)"
  shows "fst (create_image w f st0) =
           (if is_ClientError e
            then Inl (HTTPException 502
                        (PFmt [PStr ''Failed to download generated image: '', exc_str e]))
            else Inl (HTTPException 500 (PFmt [PStr ''Failed to save image: '', exc_str e])))"
    and "audit (snd (create_image w f st0)) =
           audit st0 @
           written w
             [error_entry f ((clock w (ticks st5) - start_of w st0) * 1000) (provider_name_of w)
                (if is_ClientError e
                 then PFmt [PStr ''Network error downloading image: '', exc_str e]
                 else PFmt [PStr ''Image save failed: '', exc_str e])]"
proof -
  have a: "audit st5 = audit st0"
    using run_to_generate_audit [OF assms(1)]
      audit_save_image [of w "st4\<lparr>ticks := Suc (ticks st4)\<rparr>" url
        "filename_of f (clock w (ticks st4))"] assms(2)
    by (simp add: started_def)
  have p: "persist_stage w f (start_of w st0) (provider_name_of w) url st4 =
          (if is_ClientError e
           then fail_with w f (start_of w st0) (provider_name_of w)
                  (PFmt [PStr ''Network error downloading image: '', exc_str e]) 502
                  (PFmt [PStr ''Failed to download generated image: '', exc_str e]) st5
           else fail_with w f (start_of w st0) (provider_name_of w)
                  (PFmt [PStr ''Image save failed: '', exc_str e]) 500
                  (PFmt [PStr ''Failed to save image: '', exc_str e]) st5)"
    using assms(2) by (simp add: persist_stage_def time_time_def)
  have t: "try_block w f (start_of w st0) (provider_name_of w) (started st0) =
          (if is_ClientError e
           then fail_with w f (start_of w st0) (provider_name_of w)
                  (PFmt [PStr ''Network error downloading image: '', exc_str e]) 502
                  (PFmt [PStr ''Failed to download generated image: '', exc_str e]) st5
           else fail_with w f (start_of w st0) (provider_name_of w)
                  (PFmt [PStr ''Image save failed: '', exc_str e]) 500
                  (PFmt [PStr ''Failed to save image: '', exc_str e]) st5)"
    using assms(1) p
    by (simp add: try_block_def run_to_persist_def bind_def fail_with_eq)
  show "fst (create_image w f st0) =
           (if is_ClientError e
            then Inl (HTTPException 502
                        (PFmt [PStr ''Failed to download generated image: '', exc_str e]))
            else Inl (HTTPException 500 (PFmt [PStr ''Failed to save image: '', exc_str e])))"
    by (simp add: create_image_eq t fail_with_eq)
  show "audit (snd (create_image w f st0)) =
           audit st0 @
           written w
             [error_entry f ((clock w (ticks st5) - start_of w st0) * 1000) (provider_name_of w)
                (if is_ClientError e
                 then PFmt [PStr ''Network error downloading image: '', exc_str e]
                 else PFmt [PStr ''Image save failed: '', exc_str e])]"
    by (simp add: create_image_eq t fail_with_eq a del: left_diff_distrib_numeral)
qed

lemma save_image_fetch_raises:
  assumes "fs_fault w ''media'' = None" "\<not> startswith url ''data:image''"
    and "http_get w url = Inl e"
  shows "save_image w st url fn = (Inl e, st\<lparr>trace := trace st @ [HttpGet url]\<rparr>)"
  using assms by (simp add: save_image_def download_image_def Let_def)

lemma save_image_write_fails:
  assumes "fs_fault w ''media'' = None" "\<not> startswith url ''data:image''"
    and "http_get w url = Inr (200, bs)" "fs_fault w (path_join ''media'' fn) = Some m"
  shows "save_image w st url fn = (Inl (Exc OSError m), st\<lparr>trace := trace st @ [HttpGet url]\<rparr>)"
  using assms by (simp add: save_image_def download_image_def write_file_def Let_def)

lemma save_image_fetch_status:
  assumes "fs_fault w ''media'' = None" "\<not> startswith url ''data:image''"
    and "http_get w url = Inr (code, bs)" "code \<noteq> 200"
  shows "save_image w st url fn =
           (Inl (Exc Exception (PFmt [PStr ''Failed to download image from '', PStr url,
                                      PStr '': '', PInt code])),
            st\<lparr>trace := trace st @ [HttpGet url]\<rparr>)"
  using assms by (simp add: save_image_def download_image_def Let_def)

text \<open>
  C8 (amended). Once generation has passed, a failure of saving the image ends the
  request with 502 exactly when the raised exception is an \<open>aiohttp.ClientError\<close>, and with
  500 when it is any other exception. So a fetch of the generated image that raises is
  classified by the class of what it raises (a refused connection gives 502, a timeout
  gives 500); a fetch that is answered with a status other than 200 gives 500; and a
  failure to write the fetched bytes to the local file gives 500.
\<close>

theorem persist_failure_classes:
  assumes "run_to_generate w f (start_of w st0) (provider_name_of w) (started st0) = (Inr url, st4)"
  shows "(save_image w (st4\<lparr>ticks := Suc (ticks st4)\<rparr>) url (filename_of f (clock w (ticks st4)))
            = (Inl e, st5)
          \<longrightarrow> fst (create_image w f st0) =
                (if is_ClientError e
                 then Inl (HTTPException 502
                             (PFmt [PStr ''Failed to download generated image: '', exc_str e]))
                 else Inl (HTTPException 500
                             (PFmt [PStr ''Failed to save image: '', exc_str e])))
              \<and> audit (snd (create_image w f st0)) =
                  audit st0 @
                  written w
                    [error_entry f ((clock w (ticks st5) - start_of w st0) * 1000)
                       (provider_name_of w)
                       (if is_ClientError e
                        then PFmt [PStr ''Network error downloading image: '', exc_str e]
                        else PFmt [PStr ''Image save failed: '', exc_str e])])
       \<and> (fs_fault w ''media'' = None \<and> \<not> startswith url ''data:image''
            \<and> http_get w url = Inl e'
          \<longrightarrow> fst (create_image w f st0) =
                (if is_ClientError e'
                 then Inl (HTTPException 502
                             (PFmt [PStr ''Failed to download generated image: '', exc_str e']))
                 else Inl (HTTPException 500
                             (PFmt [PStr ''Failed to save image: '', exc_str e']))))
       \<and> (fs_fault w ''media'' = None \<and> \<not> startswith url ''data:image''
            \<and> http_get w url = Inr (code, bs) \<and> code \<noteq> 200
          \<longrightarrow> fst (create_image w f st0) =
                Inl (HTTPException 500
                       (PFmt [PStr ''Failed to save image: '',
                              PFmt [PStr ''Failed to download image from '', PStr url,
                                    PStr '': '', PInt code]])))
       \<and> (fs_fault w ''media'' = None \<and> \<not> startswith url ''data:image''
            \<and> http_get w url = Inr (200, bs)
            \<and> fs_fault w (path_join ''media'' (filename_of f (clock w (ticks st4)))) = Some m
          \<longrightarrow> fst (create_image w f st0) =
                Inl (HTTPException 500 (PFmt [PStr ''Failed to save image: '', m])))"
proof (intro conjI impI)
  assume s: "save_image w (st4\<lparr>ticks := Suc (ticks st4)\<rparr>) url
               (filename_of f (clock w (ticks st4))) = (Inl e, st5)"
  show "fst (create_image w f st0) =
          (if is_ClientError e
           then Inl (HTTPException 502
                       (PFmt [PStr ''Failed to download generated image: '', exc_str e]))
           else Inl (HTTPException 500 (PFmt [PStr ''Failed to save image: '', exc_str e])))"
    by (rule persist_failure(1) [OF assms s])
  show "audit (snd (create_image w f st0)) =
          audit st0 @
          written w
            [error_entry f ((clock w (ticks st5) - start_of w st0) * 1000) (provider_name_of w)
               (if is_ClientError e
                then PFmt [PStr ''Network error downloading image: '', exc_str e]
                else PFmt [PStr ''Image save failed: '', exc_str e])]"
    by (rule persist_failure(2) [OF assms s])
next
  assume h: "fs_fault w ''media'' = None \<and> \<not> startswith url ''data:image''
               \<and> http_get w url = Inl e'"
  then show "fst (create_image w f st0) =
          (if is_ClientError e'
           then Inl (HTTPException 502
                       (PFmt [PStr ''Failed to download generated image: '', exc_str e']))
           else Inl (HTTPException 500 (PFmt [PStr ''Failed to save image: '', exc_str e'])))"
    using persist_failure(1) [OF assms save_image_fetch_raises, of e'] by simp
next
  assume h: "fs_fault w ''media'' = None \<and> \<not> startswith url ''data:image''
               \<and> http_get w url = Inr (code, bs) \<and> code \<noteq> 200"
  then show "fst (create_image w f st0) =
          Inl (HTTPException 500
                 (PFmt [PStr ''Failed to save image: '',
                        PFmt [PStr ''Failed to download image from '', PStr url,
                              PStr '': '', PInt code]]))"
    using persist_failure(1) [OF assms save_image_fetch_status, of code bs]
    by (simp add: is_ClientError_def)
next
  assume h: "fs_fault w ''media'' = None \<and> \<not> startswith url ''data:image''
               \<and> http_get w url = Inr (200, bs)
               \<and> fs_fault w (path_join ''media'' (filename_of f (clock w (ticks st4)))) = Some m"
  then show "fst (create_image w f st0) =
          Inl (HTTPException 500 (PFmt [PStr ''Failed to save image: '', m]))"
    using persist_failure(1) [OF assms save_image_write_fails, of bs m]
    by (simp add: is_ClientError_def)
qed

lemma quiet_like_generated:
  assumes "backend w = backend quiet" "environ w = environ quiet" "clock w = clock quiet"
    "http_get w ''https://img.example/user.jpg'' = Inr (200, png)"
    "http_get w ''https://img.example/catalog.jpg'' = Inr (200, png)"
    "tempfile_fault w = None" "openai_images_generate w = openai_images_generate quiet"
  shows "run_to_generate w url_form (start_of w fresh) (provider_name_of w) (started fresh) =
     (Inr generated_url,
      \<lparr>audit = [],
       trace = input_fetches @ [auth_attempt, credits_attempt, GenerateCall ''OpenAIProvider''],
       files = Map.empty, ticks = 1\<rparr>)"
  using assms by (simp add: eval_defs)

lemma fetch_down_generated:
  "run_to_generate fetch_down url_form (start_of fetch_down fresh)
     (provider_name_of fetch_down) (started fresh) =
     (Inr generated_url,
      \<lparr>audit = [],
       trace = input_fetches @ [auth_attempt, credits_attempt, GenerateCall ''OpenAIProvider''],
       files = Map.empty, ticks = 1\<rparr>)"
  by (rule quiet_like_generated) (simp_all add: fetch_down_def quiet_def generated_url_def)

lemma fetch_404_generated:
  "run_to_generate fetch_404 url_form (start_of fetch_404 fresh)
     (provider_name_of fetch_404) (started fresh) =
     (Inr generated_url,
      \<lparr>audit = [],
       trace = input_fetches @ [auth_attempt, credits_attempt, GenerateCall ''OpenAIProvider''],
       files = Map.empty, ticks = 1\<rparr>)"
  by (rule quiet_like_generated) (simp_all add: fetch_404_def quiet_def generated_url_def)

lemma disk_full_generated:
  "run_to_generate disk_full url_form (start_of disk_full fresh)
     (provider_name_of disk_full) (started fresh) =
     (Inr generated_url,
      \<lparr>audit = [],
       trace = input_fetches @ [auth_attempt, credits_attempt, GenerateCall ''OpenAIProvider''],
       files = Map.empty, ticks = 1\<rparr>)"
  by (rule quiet_like_generated) (simp_all add: disk_full_def quiet_def)

theorem persist_failure_classes_witness:
  "fst (create_image fetch_down url_form fresh) =
     Inl (HTTPException 502
            (PFmt [PStr ''Failed to download generated image: '',
                   PStr ''Cannot connect to host'']))
   \<and> fst (create_image fetch_404 url_form fresh) =
     Inl (HTTPException 500
            (PFmt [PStr ''Failed to save image: '',
                   PFmt [PStr ''Failed to download image from '', PStr generated_url,
                         PStr '': '', PInt 404]]))
   \<and> fst (create_image disk_full url_form fresh) =
     Inl (HTTPException 500
            (PFmt [PStr ''Failed to save image: '', PStr ''No space left on device'']))
   \<and> length (audit (snd (create_image disk_full url_form fresh))) = 1"
proof -
  have n: "\<not> startswith generated_url ''data:image''"
    by (simp add: startswith_def generated_url_def)
  have f: "fs_fault fetch_down ''media'' = None"
    "http_get fetch_down generated_url = Inl connection_refused"
    "is_ClientError connection_refused"
    "exc_str connection_refused = PStr ''Cannot connect to host''"
    by (simp_all add: fetch_down_def quiet_def connection_refused_def is_ClientError_def)
  have q: "fs_fault fetch_404 ''media'' = None"
    "http_get fetch_404 generated_url = Inr (404, [])"
    by (simp_all add: fetch_404_def quiet_def)
  have d: "fs_fault disk_full ''media'' = None"
    "http_get disk_full generated_url = Inr (200, png)"
    "fs_fault disk_full (path_join ''media'' (filename_of url_form (clock disk_full 1)))
       = Some (PStr ''No space left on device'')"
    by (simp_all add: disk_full_def quiet_def path_join_def startswith_def filename_of_def
        url_form_def str_int_101 py_int_101)
  have e: "is_enabled_for disk_full ERROR"
    by (simp add: is_enabled_for_def get_effective_level_def levelno_def disk_full_def quiet_def)
  have s: "save_image disk_full
             (\<lparr>audit = [],
               trace = input_fetches
                       @ [auth_attempt, credits_attempt, GenerateCall ''OpenAIProvider''],
               files = Map.empty, ticks = 1\<rparr>\<lparr>ticks := Suc 1\<rparr>)
             generated_url (filename_of url_form (clock disk_full 1)) =
           (Inl (Exc OSError (PStr ''No space left on device'')),
            \<lparr>audit = [],
             trace = input_fetches
                     @ [auth_attempt, credits_attempt, GenerateCall ''OpenAIProvider'',
                        HttpGet generated_url],
             files = Map.empty, ticks = 2\<rparr>)"
    using save_image_write_fails [OF d(1) n d(2) d(3)] by simp
  note t1 = persist_failure_classes [OF fetch_down_generated, of _ _ connection_refused]
  note t2 = persist_failure_classes [OF fetch_404_generated, of _ _ _ 404 "[]"]
  note t3 = persist_failure_classes [OF disk_full_generated,
      of "Exc OSError (PStr ''No space left on device'')"
         "\<lparr>audit = [],
           trace = input_fetches
                   @ [auth_attempt, credits_attempt, GenerateCall ''OpenAIProvider'',
                      HttpGet generated_url],
           files = Map.empty, ticks = 2\<rparr>" _ _ png "PStr ''No space left on device''"]
  have r1: "fst (create_image fetch_down url_form fresh) =
     Inl (HTTPException 502
            (PFmt [PStr ''Failed to download generated image: '',
                   PStr ''Cannot connect to host'']))"
    using t1 [THEN conjunct2, THEN conjunct1] f n by simp
  have r2: "fst (create_image fetch_404 url_form fresh) =
     Inl (HTTPException 500
            (PFmt [PStr ''Failed to save image: '',
                   PFmt [PStr ''Failed to download image from '', PStr generated_url,
                         PStr '': '', PInt 404]]))"
    using t2 [THEN conjunct2, THEN conjunct2, THEN conjunct1] q n by simp
  have r3: "fst (create_image disk_full url_form fresh) =
     Inl (HTTPException 500
            (PFmt [PStr ''Failed to save image: '', PStr ''No space left on device'']))"
    using t3 [THEN conjunct2, THEN conjunct2, THEN conjunct2] n d by simp
  have r4: "length (audit (snd (create_image disk_full url_form fresh))) = 1"
    using t3 [THEN conjunct1] s e by (simp add: fresh_def written_def error_entry_def)
  show ?thesis using r1 r2 r3 r4 by simp
qed

text \<open>
  C8 as stated fails for a network failure that is not an \<open>aiohttp.ClientError\<close>: the
  fetch of the generated image times out (\<open>asyncio.TimeoutError\<close>), and the request ends
  with the 500 of a failed save, not with a 502.
\<close>

theorem fetch_timeout_counterexample:
  "http_get fetch_timeout generated_url = Inl (Exc TimeoutError (PStr []))
   \<and> fst (run_to_generate fetch_timeout url_form (start_of fetch_timeout fresh)
            (provider_name_of fetch_timeout) (started fresh)) = Inr generated_url
   \<and> fst (create_image fetch_timeout url_form fresh) =
       Inl (HTTPException 500 (PFmt [PStr ''Failed to save image: '', PStr []]))
   \<and> map log_error (audit (snd (create_image fetch_timeout url_form fresh))) =
       [Some (PFmt [PStr ''Image save failed: '', PStr []])]"
  by (simp add: eval_defs fetch_timeout_def)
subsection \<open>Provider configuration\<close>

lemma run_to_credits_audit:
  assumes "run_to_credits w f start provider st = (Inr (), st3)"
  shows "audit st3 = audit st"
proof -
  have "well_logged w st (run_to_credits w f start provider st)"
    unfolding run_to_credits_def run_to_auth_def
    by (intro well_logged_bind well_logged_resolve_inputs well_logged_auth_stage
        well_logged_credits_stage)
  then show ?thesis using assms by (simp add: well_logged_def)
qed

lemma generate_failure:
  assumes "run_to_credits w f (start_of w st0) (provider_name_of w) (started st0) = (Inr (), st3)"
    and "provider_attempt w st3 = (Inl e, st4)"
  shows "fst (create_image w f st0) =
           (if is_ValueError e
            then Inl (HTTPException 500
                        (PFmt [PStr ''AI provider configuration error: '', exc_str e,
                               PStr ''. Please check environment variables.'']))
            else Inl (HTTPException 500 (PFmt [PStr ''Image generation failed: '', exc_str e])))"
    and "audit (snd (create_image w f st0)) =
           audit st0 @
           written w
             [error_entry f ((clock w (ticks st4) - start_of w st0) * 1000) (provider_name_of w)
                (if is_ValueError e
                 then PFmt [PStr ''Configuration error: '', exc_str e]
                 else PFmt [PStr ''Image generation failed: '', exc_str e])]"
proof -
  have a: "audit st4 = audit st0"
    using run_to_credits_audit [OF assms(1)] audit_provider_attempt [of w st3] assms(2)
    by (simp add: started_def)
  have t: "try_block w f (start_of w st0) (provider_name_of w) (started st0) =
          (if is_ValueError e
           then fail_with w f (start_of w st0) (provider_name_of w)
                  (PFmt [PStr ''Configuration error: '', exc_str e]) 500
                  (PFmt [PStr ''AI provider configuration error: '', exc_str e,
                         PStr ''. Please check environment variables.'']) st4
           else fail_with w f (start_of w st0) (provider_name_of w)
                  (PFmt [PStr ''Image generation failed: '', exc_str e]) 500
                  (PFmt [PStr ''Image generation failed: '', exc_str e]) st4)"
    using assms
    by (simp add: try_block_def run_to_persist_def run_to_generate_def bind_def
        generate_stage_def fail_with_eq)
  show "fst (create_image w f st0) =
           (if is_ValueError e
            then Inl (HTTPException 500
                        (PFmt [PStr ''AI provider configuration error: '', exc_str e,
                               PStr ''. Please check environment variables.'']))
            else Inl (HTTPException 500 (PFmt [PStr ''Image generation failed: '', exc_str e])))"
    by (simp add: create_image_eq t fail_with_eq)
  show "audit (snd (create_image w f st0)) =
           audit st0 @
           written w
             [error_entry f ((clock w (ticks st4) - start_of w st0) * 1000) (provider_name_of w)
                (if is_ValueError e
                 then PFmt [PStr ''Configuration error: '', exc_str e]
                 else PFmt [PStr ''Image generation failed: '', exc_str e])]"
    by (simp add: create_image_eq t fail_with_eq a del: left_diff_distrib_numeral)
qed

lemma resolution_fails:
  assumes "map_of providers (lower (provider_name_of w)) = None
     \<or> (lower (provider_name_of w) = ''openai''
        \<and> (environ w ''OPENAI_API_KEY'' = None \<or> environ w ''OPENAI_API_KEY'' = Some []))
     \<or> (lower (provider_name_of w) = ''gemini''
        \<and> (environ w ''GOOGLE_API_KEY'' = None \<or> environ w ''GOOGLE_API_KEY'' = Some []))"
  shows "\<exists>e. get_ai_provider (environ w) = Inl e \<and> is_ValueError e"
  using assms
  by (auto simp: get_ai_provider_def provider_name_of_def construct_def providers_def
      is_ValueError_def Let_def)

lemma placeholder_resolves:
  assumes "lower (provider_name_of w) = ''sora'' \<or> lower (provider_name_of w) = ''stability''"
  shows "\<exists>p e. get_ai_provider (environ w) = Inr p
            \<and> generate_image (openai_images_generate w) (gemini_generate_image w) p = Inl e
            \<and> exc_class e = NotImplementedError"
  using assms
  by (auto simp: get_ai_provider_def provider_name_of_def construct_def providers_def
      generate_image_def Let_def)

text \<open>
  C7 (amended). With the steps up to the credits check passed and the images staged: a
  provider name that is not one of the four known names, and the names \<open>openai\<close> and
  \<open>gemini\<close> without their API key, make provider resolution raise \<open>ValueError\<close>, and the
  request ends with 500 on the configuration-error path, with one \<open>error\<close> record
  handed to the logger. The placeholder names \<open>sora\<close> and \<open>stability\<close> resolve to a
  provider; its \<open>generate_image\<close> raises \<open>NotImplementedError\<close>, and the request ends
  with 500 on the generic generation-failed path.
\<close>

theorem provider_configuration_errors:
  assumes "run_to_credits w f (start_of w st0) (provider_name_of w) (started st0) = (Inr (), st3)"
    and "tempfile_fault w = None"
  shows "(map_of providers (lower (provider_name_of w)) = None
          \<or> (lower (provider_name_of w) = ''openai''
             \<and> (environ w ''OPENAI_API_KEY'' = None \<or> environ w ''OPENAI_API_KEY'' = Some []))
          \<or> (lower (provider_name_of w) = ''gemini''
             \<and> (environ w ''GOOGLE_API_KEY'' = None \<or> environ w ''GOOGLE_API_KEY'' = Some []))
        \<longrightarrow> (\<exists>e. get_ai_provider (environ w) = Inl e \<and> is_ValueError e
                 \<and> fst (create_image w f st0) =
                     Inl (HTTPException 500
                            (PFmt [PStr ''AI provider configuration error: '', exc_str e,
                                   PStr ''. Please check environment variables.'']))
                 \<and> audit (snd (create_image w f st0)) =
                     audit st0 @
                     written w
                       [error_entry f ((clock w (ticks st3) - start_of w st0) * 1000)
                          (provider_name_of w)
                          (PFmt [PStr ''Configuration error: '', exc_str e])]))
       \<and> (lower (provider_name_of w) = ''sora'' \<or> lower (provider_name_of w) = ''stability''
        \<longrightarrow> (\<exists>p e. get_ai_provider (environ w) = Inr p
                 \<and> generate_image (openai_images_generate w) (gemini_generate_image w) p = Inl e
                 \<and> exc_class e = NotImplementedError
                 \<and> fst (create_image w f st0) =
                     Inl (HTTPException 500
                            (PFmt [PStr ''Image generation failed: '', exc_str e]))))"
proof (intro conjI impI)
  assume h: "map_of providers (lower (provider_name_of w)) = None
          \<or> (lower (provider_name_of w) = ''openai''
             \<and> (environ w ''OPENAI_API_KEY'' = None \<or> environ w ''OPENAI_API_KEY'' = Some []))
          \<or> (lower (provider_name_of w) = ''gemini''
             \<and> (environ w ''GOOGLE_API_KEY'' = None \<or> environ w ''GOOGLE_API_KEY'' = Some []))"
  from resolution_fails [OF h] obtain e where
    e: "get_ai_provider (environ w) = Inl e" "is_ValueError e" by blast
  then have pa: "provider_attempt w st3 = (Inl e, st3)"
    by (simp add: provider_attempt_def assms(2))
  show "\<exists>e. get_ai_provider (environ w) = Inl e \<and> is_ValueError e
          \<and> fst (create_image w f st0) =
              Inl (HTTPException 500
                     (PFmt [PStr ''AI provider configuration error: '', exc_str e,
                            PStr ''. Please check environment variables.'']))
          \<and> audit (snd (create_image w f st0)) =
              audit st0 @
              written w
                [error_entry f ((clock w (ticks st3) - start_of w st0) * 1000)
                   (provider_name_of w) (PFmt [PStr ''Configuration error: '', exc_str e])]"
    using generate_failure [OF assms(1) pa] e by auto
next
  assume h: "lower (provider_name_of w) = ''sora'' \<or> lower (provider_name_of w) = ''stability''"
  from placeholder_resolves [OF h] obtain p e where
    p: "get_ai_provider (environ w) = Inr p"
      "generate_image (openai_images_generate w) (gemini_generate_image w) p = Inl e"
      "exc_class e = NotImplementedError" by blast
  then have pa: "provider_attempt w st3 =
      (Inl e, st3\<lparr>trace := trace st3 @ [GenerateCall (provider_label p)]\<rparr>)"
    by (simp add: provider_attempt_def assms(2))
  have "\<not> is_ValueError e" using p(3) by (simp add: is_ValueError_def)
  then show "\<exists>p e. get_ai_provider (environ w) = Inr p
          \<and> generate_image (openai_images_generate w) (gemini_generate_image w) p = Inl e
          \<and> exc_class e = NotImplementedError
          \<and> fst (create_image w f st0) =
              Inl (HTTPException 500 (PFmt [PStr ''Image generation failed: '', exc_str e]))"
    using generate_failure(1) [OF assms(1) pa] p by auto
qed

theorem provider_configuration_errors_witness:
  "fst (create_image dalle_world url_form fresh) =
     Inl (HTTPException 500
            (PFmt [PStr ''AI provider configuration error: '',
                   PFmt [PStr ''Unknown AI provider: '', PStr ''dalle''],
                   PStr ''. Please check environment variables.'']))
   \<and> fst (create_image keyless_world url_form fresh) =
     Inl (HTTPException 500
            (PFmt [PStr ''AI provider configuration error: '',
                   PStr ''OPENAI_API_KEY not found in environment variables'',
                   PStr ''. Please check environment variables.'']))
   \<and> fst (create_image gemini_keyless_world url_form fresh) =
     Inl (HTTPException 500
            (PFmt [PStr ''AI provider configuration error: '',
                   PStr ''GOOGLE_API_KEY not found in environment variables'',
                   PStr ''. Please check environment variables.'']))
   \<and> fst (create_image sora_world url_form fresh) =
     Inl (HTTPException 500
            (PFmt [PStr ''Image generation failed: '',
                   PStr ''Sora provider not yet implemented'']))"
proof -
  have c: "run_to_credits dalle_world url_form (start_of dalle_world fresh)
             (provider_name_of dalle_world) (started fresh) =
           (Inr (), \<lparr>audit = [], trace = input_fetches @ [auth_attempt, credits_attempt],
                     files = Map.empty, ticks = 1\<rparr>)"
    "run_to_credits keyless_world url_form (start_of keyless_world fresh)
             (provider_name_of keyless_world) (started fresh) =
           (Inr (), \<lparr>audit = [], trace = input_fetches @ [auth_attempt, credits_attempt],
                     files = Map.empty, ticks = 1\<rparr>)"
    "run_to_credits gemini_keyless_world url_form (start_of gemini_keyless_world fresh)
             (provider_name_of gemini_keyless_world) (started fresh) =
           (Inr (), \<lparr>audit = [], trace = input_fetches @ [auth_attempt, credits_attempt],
                     files = Map.empty, ticks = 1\<rparr>)"
    "run_to_credits sora_world url_form (start_of sora_world fresh)
             (provider_name_of sora_world) (started fresh) =
           (Inr (), \<lparr>audit = [], trace = input_fetches @ [auth_attempt, credits_attempt],
                     files = Map.empty, ticks = 1\<rparr>)"
    by (simp_all add: eval_defs dalle_world_def keyless_world_def gemini_keyless_world_def
        sora_world_def)
  have t: "tempfile_fault dalle_world = None" "tempfile_fault keyless_world = None"
    "tempfile_fault gemini_keyless_world = None" "tempfile_fault sora_world = None"
    by (simp_all add: dalle_world_def keyless_world_def gemini_keyless_world_def sora_world_def
        quiet_def)
  have n: "lower (provider_name_of dalle_world) = ''dalle''"
    "lower (provider_name_of keyless_world) = ''openai''"
    "lower (provider_name_of gemini_keyless_world) = ''gemini''"
    "lower (provider_name_of sora_world) = ''sora''"
    by (simp_all add: dalle_world_def keyless_world_def gemini_keyless_world_def sora_world_def
        quiet_def provider_name_of_def getenv_def lower_def lower_char_def)
  have g: "get_ai_provider (environ dalle_world) =
             Inl (Exc ValueError (PFmt [PStr ''Unknown AI provider: '', PStr ''dalle'']))"
    "get_ai_provider (environ keyless_world) =
             Inl (Exc ValueError (PStr ''OPENAI_API_KEY not found in environment variables''))"
    "get_ai_provider (environ gemini_keyless_world) =
             Inl (Exc ValueError (PStr ''GOOGLE_API_KEY not found in environment variables''))"
    "get_ai_provider (environ sora_world) = Inr Sora"
    using n
    by (simp_all add: get_ai_provider_def provider_name_of_def providers_def construct_def
        dalle_world_def keyless_world_def gemini_keyless_world_def sora_world_def quiet_def)
  have k: "environ keyless_world ''OPENAI_API_KEY'' = None"
    "environ gemini_keyless_world ''GOOGLE_API_KEY'' = None"
    by (simp_all add: keyless_world_def gemini_keyless_world_def)
  have r1: "fst (create_image dalle_world url_form fresh) =
     Inl (HTTPException 500
            (PFmt [PStr ''AI provider configuration error: '',
                   PFmt [PStr ''Unknown AI provider: '', PStr ''dalle''],
                   PStr ''. Please check environment variables.'']))"
    using provider_configuration_errors [OF c(1) t(1), THEN conjunct1]
    by (auto simp: n g providers_def)
  have r2: "fst (create_image keyless_world url_form fresh) =
     Inl (HTTPException 500
            (PFmt [PStr ''AI provider configuration error: '',
                   PStr ''OPENAI_API_KEY not found in environment variables'',
                   PStr ''. Please check environment variables.'']))"
    using provider_configuration_errors [OF c(2) t(2), THEN conjunct1]
    by (auto simp: n g k)
  have r3: "fst (create_image gemini_keyless_world url_form fresh) =
     Inl (HTTPException 500
            (PFmt [PStr ''AI provider configuration error: '',
                   PStr ''GOOGLE_API_KEY not found in environment variables'',
                   PStr ''. Please check environment variables.'']))"
    using provider_configuration_errors [OF c(3) t(3), THEN conjunct1]
    by (auto simp: n g k)
  have r4: "fst (create_image sora_world url_form fresh) =
     Inl (HTTPException 500
            (PFmt [PStr ''Image generation failed: '',
                   PStr ''Sora provider not yet implemented'']))"
    using provider_configuration_errors [OF c(4) t(4), THEN conjunct2]
    by (auto simp: n g generate_image_def)
  show ?thesis using r1 r2 r3 r4 by simp
qed

text \<open>
  C7 as stated fails for an unimplemented provider: with \<open>AI_PROVIDER=sora\<close> resolution
  succeeds, and the 500 the request ends with carries the generic generation-failed
  detail, not the configuration-error one.
\<close>

theorem unimplemented_provider_counterexample:
  "get_ai_provider (environ sora_world) = Inr Sora
   \<and> fst (create_image sora_world url_form fresh) =
       Inl (HTTPException 500
              (PFmt [PStr ''Image generation failed: '',
                     PStr ''Sora provider not yet implemented'']))
   \<and> map log_error (audit (snd (create_image sora_world url_form fresh))) =
       [Some (PFmt [PStr ''Image generation failed: '',
                    PStr ''Sora provider not yet implemented''])]"
  by (simp add: eval_defs sora_world_def)

end
